theory Spec2Isabelle
  imports Main
begin

section \<open>Values and rows\<close>

text \<open>
  A field of a JSON request body, as far as the zod schemas of the server tell values
  apart: absent, null, a string, or anything else (number, boolean, array, object).
\<close>

datatype jsval = JUndefined | JNull | JString string | JOther

text \<open>Rows of the tables the realtime handlers read and write.\<close>

record user_row =
  user_id :: string
  user_email :: string
  user_name :: string
  user_role :: string

record greeting =
  g_id :: string
  g_content :: "string option"
  g_sender_id :: string
  g_recipient_type :: string
  g_recipient_id :: string
  g_status :: string
  g_scheduled_at :: "string option"
  g_created_at :: string
  g_updated_at :: string

record notification =
  n_id :: string
  n_user_id :: string
  n_greeting_id :: "string option"
  n_message :: string
  n_read_at :: "string option"
  n_created_at :: string

record group_member =
  gm_id :: string
  gm_group_id :: string
  gm_user_id :: string
  gm_role :: string
  gm_joined_at :: string

record chat_message =
  m_id :: string
  m_group_id :: string
  m_sender_id :: string
  m_content :: string
  m_created_at :: string

section \<open>Sockets, rooms and emitted events\<close>

text \<open>
  A connected socket carries the user row the handshake middleware attached to it and the
  rooms the server code joined it to. Room names are plain strings: user ids and group
  ids live in one name space, and so do the ids of the sockets: socket.io puts every
  socket into a room named by the socket's own id.
\<close>

record socket =
  sid :: string
  sock_user :: user_row
  rooms :: "string list"

datatype payload =
    P_greeting greeting
  | P_notification notification
  | P_message chat_message
  | P_member group_member
  | P_moderation "string option" "string option"
  | P_error string

text \<open>
  The three ways the server emits: \<^verbatim>\<open>io.emit(name, p)\<close>, \<^verbatim>\<open>io.to(room).emit(name, p)\<close> and
  \<^verbatim>\<open>socket.emit(name, p)\<close>.
\<close>

datatype emit =
    Io_emit string payload
  | Io_to string string payload
  | Socket_emit string string payload

record server =
  users :: "user_row list"
  greetings :: "greeting list"
  notifications :: "notification list"
  group_ids :: "string list"
  group_members :: "group_member list"
  chat_messages :: "chat_message list"
  sockets :: "socket list"

text \<open>The subscriber set of a room: the connected sockets that are in it.\<close>

definition resolve :: "server \<Rightarrow> string \<Rightarrow> string list" where
  "resolve st room = map sid (filter (\<lambda>s. room \<in> set (rooms s)) (sockets st))"

definition connected :: "server \<Rightarrow> string list" where
  "connected st = map sid (sockets st)"

fun receivers :: "server \<Rightarrow> emit \<Rightarrow> string list" where
  "receivers st (Io_emit name p) = connected st"
| "receivers st (Io_to room name p) = resolve st room"
| "receivers st (Socket_emit c name p) = filter (\<lambda>d. d = c) (connected st)"

text \<open>An emitted event together with the connections it reaches at dispatch time.\<close>

type_synonym dispatched = "emit \<times> string list"

definition dispatch :: "server \<Rightarrow> emit list \<Rightarrow> dispatched list" where
  "dispatch st es = map (\<lambda>e. (e, receivers st e)) es"

section \<open>Connection registry\<close>

datatype jwt_result = Jwt_invalid | Jwt_payload "string option"

definition select_user :: "server \<Rightarrow> string option \<Rightarrow> user_row list" where
  "select_user st uid =
     (case uid of None \<Rightarrow> [] | Some u \<Rightarrow> filter (\<lambda>r. user_id r = u) (users st))"

text \<open>
  The handshake middleware \<^verbatim>\<open>io.use\<close>. \<open>jwt_verify\<close> stands for \<^verbatim>\<open>jwt.verify\<close> with the
  server's secret: it throws (\<open>Jwt_invalid\<close>) or yields the payload's \<^verbatim>\<open>user_id\<close>.
  \<open>db 0\<close> tells whether the user lookup completes without throwing.
\<close>

definition io_use ::
  "(string \<Rightarrow> jwt_result) \<Rightarrow> (nat \<Rightarrow> bool) \<Rightarrow> server \<Rightarrow> string option \<Rightarrow> string + user_row" where
  "io_use jwt_verify db st token =
     (case token of
        None \<Rightarrow> Inl ''Authentication token required''
      | Some t \<Rightarrow>
          if t = [] then Inl ''Authentication token required''
          else (case jwt_verify t of
                  Jwt_invalid \<Rightarrow> Inl ''Authentication failed''
                | Jwt_payload uid \<Rightarrow>
                    if \<not> db 0 then Inl ''Authentication failed''
                    else (case select_user st uid of
                            [] \<Rightarrow> Inl ''Invalid token''
                          | u # _ \<Rightarrow> Inr u)))"

text \<open>
  A socket that passed the middleware is registered in the room of its own id, and the
  connection handler joins it to its user's personal room. Rooms are a set.
\<close>

definition on_connection :: "string \<Rightarrow> user_row \<Rightarrow> server \<Rightarrow> server" where
  "on_connection c u st =
     st\<lparr>sockets := sockets st @
          [\<lparr>sid = c, sock_user = u, rooms = List.insert (user_id u) [c]\<rparr>]\<rparr>"

definition connect ::
  "(string \<Rightarrow> jwt_result) \<Rightarrow> (nat \<Rightarrow> bool) \<Rightarrow> string \<Rightarrow> string option \<Rightarrow> server
     \<Rightarrow> (string + string) \<times> server" where
  "connect jwt_verify db c token st =
     (case io_use jwt_verify db st token of
        Inl e \<Rightarrow> (Inl e, st)
      | Inr u \<Rightarrow> (Inr c, on_connection c u st))"

definition disconnect :: "string \<Rightarrow> server \<Rightarrow> server" where
  "disconnect c st = st\<lparr>sockets := filter (\<lambda>s. sid s \<noteq> c) (sockets st)\<rparr>"

definition join_group :: "string \<Rightarrow> string \<Rightarrow> server \<Rightarrow> server" where
  "join_group c group_id st =
     st\<lparr>sockets := map (\<lambda>s. if sid s = c then s\<lparr>rooms := List.insert group_id (rooms s)\<rparr> else s)
                        (sockets st)\<rparr>"

definition leave_group :: "string \<Rightarrow> string \<Rightarrow> server \<Rightarrow> server" where
  "leave_group c group_id st =
     st\<lparr>sockets := map (\<lambda>s. if sid s = c then s\<lparr>rooms := removeAll group_id (rooms s)\<rparr> else s)
                        (sockets st)\<rparr>"

section \<open>Socket event handlers\<close>

text \<open>
  Every handler takes \<open>db\<close>, the outcome of the storage collaborator: \<open>db i\<close> tells whether
  the \<open>i\<close>-th query issued while serving the request completes without throwing (for a
  route behind \<^verbatim>\<open>authenticateToken\<close>, query \<open>0\<close> is the middleware's user lookup). Fresh
  identifiers (\<^verbatim>\<open>uuidv4()\<close>) and the clock (\<^verbatim>\<open>new Date().toISOString()\<close>) are inputs as well.
  A handler returns the new state and the events it emitted, in order.
\<close>

definition status_enum :: "string list" where
  "status_enum = [''sent'', ''pending'', ''delivered'', ''failed'']"

fun is_string :: "jsval \<Rightarrow> bool" where
  "is_string (JString s) = True"
| "is_string v = False"

fun string_of :: "jsval \<Rightarrow> string" where
  "string_of (JString s) = s"
| "string_of v = []"

text \<open>\<^verbatim>\<open>z.string().nullable().optional()\<close>\<close>

fun is_nullable_string :: "jsval \<Rightarrow> bool" where
  "is_nullable_string JOther = False"
| "is_nullable_string v = True"

text \<open>\<^verbatim>\<open>z.string().optional()\<close>\<close>

fun is_optional_string :: "jsval \<Rightarrow> bool" where
  "is_optional_string JUndefined = True"
| "is_optional_string (JString s) = True"
| "is_optional_string v = False"

text \<open>\<^verbatim>\<open>x || y\<close> on a string: the empty string is falsy.\<close>

definition or_else :: "string \<Rightarrow> string \<Rightarrow> string" where
  "or_else x y = (if x = [] then y else x)"

record group_message_body =
  gmb_id :: jsval
  gmb_group_id :: jsval
  gmb_sender_id :: jsval
  gmb_content :: jsval

definition createGroupChatMessageInputSchema :: "group_message_body \<Rightarrow> bool" where
  "createGroupChatMessageInputSchema b \<longleftrightarrow>
     is_string (gmb_id b) \<and> is_string (gmb_group_id b) \<and> is_string (gmb_sender_id b) \<and>
     is_string (gmb_content b) \<and> 1 \<le> length (string_of (gmb_content b))"

definition new_message :: "string \<Rightarrow> string \<Rightarrow> group_message_body \<Rightarrow> chat_message" where
  "new_message uuid now data =
     \<lparr>m_id = or_else (string_of (gmb_id data)) uuid,
      m_group_id = string_of (gmb_group_id data),
      m_sender_id = string_of (gmb_sender_id data),
      m_content = string_of (gmb_content data),
      m_created_at = now\<rparr>"

definition send_group_message ::
  "string \<Rightarrow> string \<Rightarrow> string \<Rightarrow> (nat \<Rightarrow> bool) \<Rightarrow> group_message_body \<Rightarrow> server
     \<Rightarrow> server \<times> emit list" where
  "send_group_message c uuid now db data st =
     (if \<not> createGroupChatMessageInputSchema data
      then (st, [Socket_emit c ''error'' (P_error ''Validation error'')])
      else if \<not> db 0
      then (st, [Socket_emit c ''error'' (P_error ''Failed to send message'')])
      else
        let message = new_message uuid now data
        in (st\<lparr>chat_messages := chat_messages st @ [message]\<rparr>,
            [Io_to (string_of (gmb_group_id data)) ''group_message'' (P_message message)]))"

text \<open>
  \<^verbatim>\<open>update_greeting_status\<close> validates nothing. Its argument is \<open>None\<close> when it cannot be
  destructured; a field is \<open>None\<close> when absent or null and a text otherwise. The column
  \<^verbatim>\<open>status\<close> is \<^verbatim>\<open>NOT NULL\<close>, so writing a null status into a matching row throws.
\<close>

definition update_status_rows :: "string \<Rightarrow> string \<Rightarrow> string \<Rightarrow> greeting list \<Rightarrow> greeting list" where
  "update_status_rows gid status now gs =
     map (\<lambda>g. if g_id g = gid then g\<lparr>g_status := status, g_updated_at := now\<rparr> else g) gs"

definition status_event :: "string \<Rightarrow> string" where
  "status_event gid = ''greeting_'' @ gid @ ''_status''"

definition update_greeting_status ::
  "string \<Rightarrow> string \<Rightarrow> (nat \<Rightarrow> bool) \<Rightarrow> (string option \<times> string option) option \<Rightarrow> server
     \<Rightarrow> server \<times> emit list" where
  "update_greeting_status c now db data st =
     (let failed = (st, [Socket_emit c ''error'' (P_error ''Failed to update greeting status'')])
      in case data of
        None \<Rightarrow> failed
      | Some (greeting_id, status) \<Rightarrow>
          if \<not> db 0 then failed
          else (case greeting_id of
             None \<Rightarrow> (st, [])
           | Some gid \<Rightarrow>
               if filter (\<lambda>g. g_id g = gid) (greetings st) = [] then (st, [])
               else (case status of
                  None \<Rightarrow> failed
                | Some s \<Rightarrow>
                    let gs = update_status_rows gid s now (greetings st)
                    in (st\<lparr>greetings := gs\<rparr>,
                        map (\<lambda>g. Io_emit (status_event gid) (P_greeting g))
                            (take 1 (filter (\<lambda>g. g_id g = gid) gs))))))"

definition admin_moderate ::
  "string \<Rightarrow> user_row \<Rightarrow> (nat \<Rightarrow> bool) \<Rightarrow> (string option \<times> string option) option \<Rightarrow> server
     \<Rightarrow> server \<times> emit list" where
  "admin_moderate c u db data st =
     (if user_role u \<noteq> ''admin''
      then (st, [Socket_emit c ''error'' (P_error ''Admin access required'')])
      else
        let failed = (st, [Socket_emit c ''error'' (P_error ''Moderation action failed'')])
        in case data of
          None \<Rightarrow> failed
        | Some (greeting_id, action) \<Rightarrow>
            let done = [Io_emit ''admin_moderation_action'' (P_moderation greeting_id action)]
            in if action = Some ''deleted'' then
                 (if \<not> db 0 then failed
                  else (st\<lparr>greetings := filter (\<lambda>g. Some (g_id g) \<noteq> greeting_id) (greetings st)\<rparr>,
                        done))
               else if action = Some ''approved'' then
                 (if \<not> db 0 then failed
                  else (st\<lparr>greetings := map (\<lambda>g. if Some (g_id g) = greeting_id
                                                   then g\<lparr>g_status := ''sent''\<rparr> else g)
                                              (greetings st)\<rparr>,
                        done))
               else (st, done))"

section \<open>HTTP write path\<close>

datatype body =
    B_greeting greeting
  | B_notification notification
  | B_member group_member
  | B_error string string

type_synonym response = "nat \<times> body"

text \<open>\<^verbatim>\<open>s.split(' ')\<close>\<close>

fun split_sp :: "string \<Rightarrow> string list" where
  "split_sp [] = [[]]"
| "split_sp (x # xs) =
     (if x = CHR '' '' then [] # split_sp xs
      else (case split_sp xs of [] \<Rightarrow> [[x]] | w # ws \<Rightarrow> (x # w) # ws))"

text \<open>\<^verbatim>\<open>authHeader && authHeader.split(' ')[1]\<close>; \<open>None\<close> is \<^verbatim>\<open>undefined\<close>.\<close>

definition bearer_token :: "string option \<Rightarrow> string option" where
  "bearer_token authHeader =
     (case authHeader of
        None \<Rightarrow> None
      | Some h \<Rightarrow> if h = [] then Some []
                  else (case split_sp h of _ # t # _ \<Rightarrow> Some t | _ \<Rightarrow> None))"

definition authenticateToken ::
  "(string \<Rightarrow> jwt_result) \<Rightarrow> (nat \<Rightarrow> bool) \<Rightarrow> server \<Rightarrow> string option \<Rightarrow> response + user_row" where
  "authenticateToken jwt_verify db st authHeader =
     (let required = Inl (401, B_error ''Access token required'' ''AUTH_TOKEN_REQUIRED'')
      in case bearer_token authHeader of
        None \<Rightarrow> required
      | Some t \<Rightarrow>
          if t = [] then required
          else (case jwt_verify t of
                  Jwt_invalid \<Rightarrow> Inl (403, B_error ''Invalid or expired token'' ''AUTH_TOKEN_INVALID'')
                | Jwt_payload uid \<Rightarrow>
                    if \<not> db 0
                    then Inl (403, B_error ''Invalid or expired token'' ''AUTH_TOKEN_INVALID'')
                    else (case select_user st uid of
                            [] \<Rightarrow> Inl (401, B_error ''Invalid token'' ''AUTH_TOKEN_INVALID'')
                          | u # _ \<Rightarrow> Inr u)))"

definition validation_error :: response where
  "validation_error = (400, B_error ''Validation error'' ''VALIDATION_ERROR'')"

definition internal_error :: response where
  "internal_error = (500, B_error ''Internal server error'' ''INTERNAL_SERVER_ERROR'')"

subsection \<open>POST /api/greetings\<close>

text \<open>
  \<open>cg_content\<close> is \<^verbatim>\<open>JSON.stringify(content)\<close>: the text of the content, \<open>None\<close> when the
  body has none.
\<close>

record create_greeting_body =
  cg_id :: jsval
  cg_content :: "string option"
  cg_sender_id :: jsval
  cg_recipient_type :: jsval
  cg_recipient_id :: jsval
  cg_status :: jsval
  cg_scheduled_at :: jsval

definition createGreetingInputSchema :: "create_greeting_body \<Rightarrow> bool" where
  "createGreetingInputSchema b \<longleftrightarrow>
     is_string (cg_id b) \<and> is_string (cg_sender_id b) \<and> is_string (cg_recipient_type b) \<and>
     is_string (cg_recipient_id b) \<and>
     is_string (cg_status b) \<and> string_of (cg_status b) \<in> set status_enum \<and>
     is_nullable_string (cg_scheduled_at b)"

text \<open>\<^verbatim>\<open>scheduled_at || null\<close>\<close>

fun or_null :: "jsval \<Rightarrow> string option" where
  "or_null (JString s) = (if s = [] then None else Some s)"
| "or_null v = None"

definition new_greeting :: "string \<Rightarrow> string \<Rightarrow> create_greeting_body \<Rightarrow> greeting" where
  "new_greeting uuid now b =
     \<lparr>g_id = or_else (string_of (cg_id b)) uuid,
      g_content = cg_content b,
      g_sender_id = string_of (cg_sender_id b),
      g_recipient_type = string_of (cg_recipient_type b),
      g_recipient_id = string_of (cg_recipient_id b),
      g_status = string_of (cg_status b),
      g_scheduled_at = or_null (cg_scheduled_at b),
      g_created_at = now,
      g_updated_at = now\<rparr>"

definition new_notification :: "string \<Rightarrow> string \<Rightarrow> greeting \<Rightarrow> notification" where
  "new_notification notificationId now g =
     \<lparr>n_id = notificationId,
      n_user_id = g_recipient_id g,
      n_greeting_id = Some (g_id g),
      n_message = ''You received a new greeting!'',
      n_read_at = None,
      n_created_at = now\<rparr>"

text \<open>
  The handler proper; \<open>db 1\<close> is the insert of the greeting, \<open>db 2\<close> the insert of the
  notification. \<open>uuid_g\<close> and \<open>uuid_n\<close> are the two fresh identifiers.
\<close>

definition post_greetings_handler ::
  "(nat \<Rightarrow> bool) \<Rightarrow> string \<Rightarrow> string \<Rightarrow> string \<Rightarrow> create_greeting_body \<Rightarrow> server
     \<Rightarrow> response \<times> server \<times> emit list" where
  "post_greetings_handler db uuid_g uuid_n now b st =
     (if \<not> createGreetingInputSchema b then (validation_error, st, [])
      else if \<not> db 1 then (internal_error, st, [])
      else
        let greeting = new_greeting uuid_g now b;
            st1 = st\<lparr>greetings := greetings st @ [greeting]\<rparr>;
            created = Io_emit ''greeting_created'' (P_greeting greeting)
        in if string_of (cg_recipient_type b) = ''user'' then
             (if \<not> db 2 then (internal_error, st1, [created])
              else
                let n = new_notification uuid_n now greeting
                in ((201, B_greeting greeting),
                    st1\<lparr>notifications := notifications st1 @ [n]\<rparr>,
                    [created, Io_to (g_recipient_id greeting) ''notification'' (P_notification n)]))
           else ((201, B_greeting greeting), st1, [created]))"

definition post_greetings ::
  "(string \<Rightarrow> jwt_result) \<Rightarrow> (nat \<Rightarrow> bool) \<Rightarrow> string \<Rightarrow> string \<Rightarrow> string \<Rightarrow> string option
     \<Rightarrow> create_greeting_body \<Rightarrow> server \<Rightarrow> response \<times> server \<times> emit list" where
  "post_greetings jwt_verify db uuid_g uuid_n now authHeader b st =
     (case authenticateToken jwt_verify db st authHeader of
        Inl r \<Rightarrow> (r, st, [])
      | Inr u \<Rightarrow> post_greetings_handler db uuid_g uuid_n now b st)"

subsection \<open>PUT /api/greetings/:greeting_id\<close>

record update_greeting_body =
  ug_content :: "string option"
  ug_sender_id :: jsval
  ug_recipient_type :: jsval
  ug_recipient_id :: jsval
  ug_status :: jsval
  ug_scheduled_at :: jsval

definition updateGreetingInputSchema :: "update_greeting_body \<Rightarrow> bool" where
  "updateGreetingInputSchema b \<longleftrightarrow>
     is_optional_string (ug_sender_id b) \<and> is_optional_string (ug_recipient_type b) \<and>
     is_optional_string (ug_recipient_id b) \<and>
     (ug_status b = JUndefined \<or> is_string (ug_status b) \<and> string_of (ug_status b) \<in> set status_enum) \<and>
     is_nullable_string (ug_scheduled_at b)"

definition apply_update :: "string \<Rightarrow> update_greeting_body \<Rightarrow> greeting \<Rightarrow> greeting" where
  "apply_update now b g =
     g\<lparr>g_content := (case ug_content b of None \<Rightarrow> g_content g | Some c \<Rightarrow> Some c),
       g_status := (if ug_status b = JUndefined then g_status g else string_of (ug_status b)),
       g_scheduled_at := (case ug_scheduled_at b of
                            JUndefined \<Rightarrow> g_scheduled_at g
                          | JString s \<Rightarrow> Some s
                          | _ \<Rightarrow> None),
       g_updated_at := now\<rparr>"

definition updated_event :: "string \<Rightarrow> string" where
  "updated_event gid = ''greeting_'' @ gid @ ''_updated''"

definition put_greetings_handler ::
  "(nat \<Rightarrow> bool) \<Rightarrow> string \<Rightarrow> string \<Rightarrow> update_greeting_body \<Rightarrow> server
     \<Rightarrow> response \<times> server \<times> emit list" where
  "put_greetings_handler db now greeting_id b st =
     (if \<not> updateGreetingInputSchema b then (validation_error, st, [])
      else if \<not> db 1 then (internal_error, st, [])
      else
        let gs = map (\<lambda>g. if g_id g = greeting_id then apply_update now b g else g) (greetings st)
        in case filter (\<lambda>g. g_id g = greeting_id) gs of
             [] \<Rightarrow> ((404, B_error ''Greeting not found'' ''GREETING_NOT_FOUND''), st, [])
           | g # _ \<Rightarrow> ((200, B_greeting g), st\<lparr>greetings := gs\<rparr>,
                       [Io_emit (updated_event greeting_id) (P_greeting g)]))"

definition put_greetings ::
  "(string \<Rightarrow> jwt_result) \<Rightarrow> (nat \<Rightarrow> bool) \<Rightarrow> string \<Rightarrow> string option \<Rightarrow> string
     \<Rightarrow> update_greeting_body \<Rightarrow> server \<Rightarrow> response \<times> server \<times> emit list" where
  "put_greetings jwt_verify db now authHeader greeting_id b st =
     (case authenticateToken jwt_verify db st authHeader of
        Inl r \<Rightarrow> (r, st, [])
      | Inr u \<Rightarrow> put_greetings_handler db now greeting_id b st)"

subsection \<open>POST /api/groups/:group_id/members\<close>

record group_member_body =
  mb_id :: jsval
  mb_user_id :: jsval
  mb_role :: jsval

definition createGroupMemberInputSchema :: "group_member_body \<Rightarrow> bool" where
  "createGroupMemberInputSchema b \<longleftrightarrow>
     is_string (mb_id b) \<and> is_string (mb_user_id b) \<and>
     is_string (mb_role b) \<and> string_of (mb_role b) \<in> set [''admin'', ''member'']"

definition post_group_members_handler ::
  "(nat \<Rightarrow> bool) \<Rightarrow> string \<Rightarrow> string \<Rightarrow> string \<Rightarrow> group_member_body \<Rightarrow> server
     \<Rightarrow> response \<times> server \<times> emit list" where
  "post_group_members_handler db uuid now group_id b st =
     (if \<not> createGroupMemberInputSchema b then (validation_error, st, [])
      else if \<not> db 1 then (internal_error, st, [])
      else if group_id \<notin> set (group_ids st)
      then ((404, B_error ''Group not found'' ''GROUP_NOT_FOUND''), st, [])
      else if \<not> db 2 then (internal_error, st, [])
      else if select_user st (Some (string_of (mb_user_id b))) = []
      then ((404, B_error ''User not found'' ''USER_NOT_FOUND''), st, [])
      else if \<not> db 3 then (internal_error, st, [])
      else
        let member = \<lparr>gm_id = or_else (string_of (mb_id b)) uuid,
                       gm_group_id = group_id,
                       gm_user_id = string_of (mb_user_id b),
                       gm_role = string_of (mb_role b),
                       gm_joined_at = now\<rparr>
        in ((201, B_member member),
            st\<lparr>group_members := group_members st @ [member]\<rparr>,
            [Io_to group_id ''member_joined'' (P_member member)]))"

definition post_group_members ::
  "(string \<Rightarrow> jwt_result) \<Rightarrow> (nat \<Rightarrow> bool) \<Rightarrow> string \<Rightarrow> string \<Rightarrow> string option \<Rightarrow> string
     \<Rightarrow> group_member_body \<Rightarrow> server \<Rightarrow> response \<times> server \<times> emit list" where
  "post_group_members jwt_verify db uuid now authHeader group_id b st =
     (case authenticateToken jwt_verify db st authHeader of
        Inl r \<Rightarrow> (r, st, [])
      | Inr u \<Rightarrow> post_group_members_handler db uuid now group_id b st)"

subsection \<open>POST /api/notifications/:notification_id/mark-read\<close>

text \<open>
  The body's \<^verbatim>\<open>read_at\<close> is \<open>None\<close> when absent or null and a text otherwise;
  \<^verbatim>\<open>read_at || new Date().toISOString()\<close> is what the update writes.
\<close>

definition read_at_value :: "string option \<Rightarrow> string \<Rightarrow> string" where
  "read_at_value read_at now = (case read_at of None \<Rightarrow> now | Some r \<Rightarrow> or_else r now)"

definition mark_read_handler ::
  "(nat \<Rightarrow> bool) \<Rightarrow> string \<Rightarrow> user_row \<Rightarrow> string \<Rightarrow> string option \<Rightarrow> server
     \<Rightarrow> response \<times> server \<times> emit list" where
  "mark_read_handler db now u notification_id read_at st =
     (if \<not> db 1 then (internal_error, st, [])
      else
        let hit = (\<lambda>n. n_id n = notification_id \<and> n_user_id n = user_id u);
            ns = map (\<lambda>n. if hit n then n\<lparr>n_read_at := Some (read_at_value read_at now)\<rparr> else n)
                     (notifications st)
        in case filter hit ns of
             [] \<Rightarrow> ((404, B_error ''Notification not found'' ''NOTIFICATION_NOT_FOUND''), st, [])
           | n # _ \<Rightarrow> ((200, B_notification n), st\<lparr>notifications := ns\<rparr>, []))"

definition mark_read ::
  "(string \<Rightarrow> jwt_result) \<Rightarrow> (nat \<Rightarrow> bool) \<Rightarrow> string \<Rightarrow> string option \<Rightarrow> string
     \<Rightarrow> string option \<Rightarrow> server \<Rightarrow> response \<times> server \<times> emit list" where
  "mark_read jwt_verify db now authHeader notification_id read_at st =
     (case authenticateToken jwt_verify db st authHeader of
        Inl r \<Rightarrow> (r, st, [])
      | Inr u \<Rightarrow> mark_read_handler db now u notification_id read_at st)"

section \<open>The server as a transition system\<close>

text \<open>
  One action is one request or socket event served to completion; two handlers
  interleaving at an \<^verbatim>\<open>await\<close> are not modelled. \<open>step\<close> returns the new state and every
  event emitted, paired with the connections that receive it. No handler that emits
  changes the sockets or their rooms, so the receivers are those of the moment of the
  emit.
\<close>

datatype action =
    Connect "nat \<Rightarrow> bool" string "string option"
  | Disconnect string
  | Join_group string string
  | Leave_group string string
  | Send_group_message string string string "nat \<Rightarrow> bool" group_message_body
  | Update_greeting_status string string "nat \<Rightarrow> bool" "(string option \<times> string option) option"
  | Admin_moderate string "nat \<Rightarrow> bool" "(string option \<times> string option) option"
  | Post_greetings "nat \<Rightarrow> bool" string string string "string option" create_greeting_body
  | Put_greetings "nat \<Rightarrow> bool" string "string option" string update_greeting_body
  | Post_group_members "nat \<Rightarrow> bool" string string "string option" string group_member_body
  | Mark_read "nat \<Rightarrow> bool" string "string option" string "string option"

definition emitted :: "server \<times> emit list \<Rightarrow> server \<times> dispatched list" where
  "emitted r = (fst r, dispatch (fst r) (snd r))"

text \<open>A socket event is handled only for a socket that is connected.\<close>

definition on_socket :: "string \<Rightarrow> server \<Rightarrow> (socket \<Rightarrow> server \<times> emit list) \<Rightarrow> server \<times> dispatched list" where
  "on_socket c st h =
     (case filter (\<lambda>s. sid s = c) (sockets st) of
        [] \<Rightarrow> (st, [])
      | s # _ \<Rightarrow> emitted (h s))"

fun step :: "(string \<Rightarrow> jwt_result) \<Rightarrow> action \<Rightarrow> server \<Rightarrow> server \<times> dispatched list" where
  "step jwt (Connect db c token) st = (snd (connect jwt db c token st), [])"
| "step jwt (Disconnect c) st = (disconnect c st, [])"
| "step jwt (Join_group c g) st = (join_group c g st, [])"
| "step jwt (Leave_group c g) st = (leave_group c g st, [])"
| "step jwt (Send_group_message c uuid now db data) st =
     on_socket c st (\<lambda>s. send_group_message c uuid now db data st)"
| "step jwt (Update_greeting_status c now db data) st =
     on_socket c st (\<lambda>s. update_greeting_status c now db data st)"
| "step jwt (Admin_moderate c db data) st =
     on_socket c st (\<lambda>s. admin_moderate c (sock_user s) db data st)"
| "step jwt (Post_greetings db uuid_g uuid_n now h b) st =
     emitted (snd (post_greetings jwt db uuid_g uuid_n now h b st))"
| "step jwt (Put_greetings db now h gid b) st =
     emitted (snd (put_greetings jwt db now h gid b st))"
| "step jwt (Post_group_members db uuid now h gid b) st =
     emitted (snd (post_group_members jwt db uuid now h gid b st))"
| "step jwt (Mark_read db now h nid r) st =
     emitted (snd (mark_read jwt db now h nid r st))"

fun run :: "(string \<Rightarrow> jwt_result) \<Rightarrow> action list \<Rightarrow> server \<Rightarrow> server \<times> dispatched list" where
  "run jwt [] st = (st, [])"
| "run jwt (a # as) st =
     (let (st1, ds1) = step jwt a st; (st2, ds2) = run jwt as st1 in (st2, ds1 @ ds2))"

section \<open>Predicates on actions and events\<close>

fun status_change :: "action \<Rightarrow> bool" where
  "status_change (Update_greeting_status c now db data) = True"
| "status_change (Put_greetings db now h gid b) = True"
| "status_change a = False"



text \<open>The users recorded as members of a group in storage.\<close>

definition members_of :: "server \<Rightarrow> string \<Rightarrow> string list" where
  "members_of st g = map gm_user_id (filter (\<lambda>m. gm_group_id m = g) (group_members st))"

text \<open>The user a connection is bound to.\<close>

definition identity :: "server \<Rightarrow> string \<Rightarrow> string list" where
  "identity st c = map (\<lambda>s. user_id (sock_user s)) (filter (\<lambda>s. sid s = c) (sockets st))"

section \<open>The lifecycle as the specification words it\<close>

text \<open>
  Timestamps are ISO-8601 texts of one format, ordered as texts. The specification gives a
  new greeting the status \<^verbatim>\<open>pending\<close> if \<^verbatim>\<open>scheduled_at\<close> is set and in the future, and
  \<^verbatim>\<open>sent\<close> otherwise; \<^verbatim>\<open>delivered\<close> and \<^verbatim>\<open>failed\<close> are its terminal statuses.
\<close>

fun text_less :: "string \<Rightarrow> string \<Rightarrow> bool" where
  "text_less [] [] = False"
| "text_less [] (y # ys) = True"
| "text_less (x # xs) [] = False"
| "text_less (x # xs) (y # ys) =
     ((of_char x :: nat) < of_char y \<or> (x = y \<and> text_less xs ys))"

definition spec_initial_status :: "string \<Rightarrow> string option \<Rightarrow> string" where
  "spec_initial_status now scheduled_at =
     (case scheduled_at of
        None \<Rightarrow> ''sent''
      | Some t \<Rightarrow> if text_less now t then ''pending'' else ''sent'')"

definition spec_terminal :: "string \<Rightarrow> bool" where
  "spec_terminal status \<longleftrightarrow> status = ''delivered'' \<or> status = ''failed''"

section \<open>A small deployment\<close>

text \<open>Rows after the seed data of the repository, and three open connections.\<close>

definition user1 :: user_row where
  "user1 = \<lparr>user_id = ''user1'', user_email = ''alice@example.com'', user_name = ''Alice Smith'',
            user_role = ''user''\<rparr>"

definition user2 :: user_row where
  "user2 = \<lparr>user_id = ''user2'', user_email = ''bob@example.com'', user_name = ''Bob Johnson'',
            user_role = ''user''\<rparr>"

definition user3 :: user_row where
  "user3 = \<lparr>user_id = ''user3'', user_email = ''charlie@example.com'', user_name = ''Charlie Brown'',
            user_role = ''user''\<rparr>"

definition greet1 :: greeting where
  "greet1 = \<lparr>g_id = ''greet1'', g_content = Some ''{}'', g_sender_id = ''user1'',
             g_recipient_type = ''user'', g_recipient_id = ''user2'', g_status = ''sent'',
             g_scheduled_at = None, g_created_at = ''2023-10-05T11:00:00Z'',
             g_updated_at = ''2023-10-05T11:00:00Z''\<rparr>"

definition greet3 :: greeting where
  "greet3 = \<lparr>g_id = ''greet3'', g_content = Some ''{}'', g_sender_id = ''user1'',
             g_recipient_type = ''user'', g_recipient_id = ''user2'', g_status = ''delivered'',
             g_scheduled_at = None, g_created_at = ''2023-10-05T11:10:00Z'',
             g_updated_at = ''2023-10-05T11:10:00Z''\<rparr>"

definition note1 :: notification where
  "note1 = \<lparr>n_id = ''n1'', n_user_id = ''user2'', n_greeting_id = Some ''greet1'',
            n_message = ''You received a new greeting!'', n_read_at = Some ''2023-10-06'',
            n_created_at = ''2023-10-05T11:00:00Z''\<rparr>"

definition gm1 :: group_member where
  "gm1 = \<lparr>gm_id = ''gm1'', gm_group_id = ''group1'', gm_user_id = ''user1'', gm_role = ''admin'',
          gm_joined_at = ''2023-10-05T10:31:00Z''\<rparr>"

definition gm2 :: group_member where
  "gm2 = \<lparr>gm_id = ''gm2'', gm_group_id = ''group1'', gm_user_id = ''user2'', gm_role = ''member'',
          gm_joined_at = ''2023-10-05T10:32:00Z''\<rparr>"

definition demo :: server where
  "demo = \<lparr>users = [user1, user2, user3],
           greetings = [greet1, greet3],
           notifications = [note1],
           group_ids = [''group1''],
           group_members = [gm1, gm2],
           chat_messages = [],
           sockets = [\<lparr>sid = ''s11'', sock_user = user1, rooms = [''s11'', ''user1'', ''group1'']\<rparr>,
                      \<lparr>sid = ''s12'', sock_user = user2, rooms = [''s12'', ''user2'', ''group1'']\<rparr>,
                      \<lparr>sid = ''s13'', sock_user = user3, rooms = [''s13'', ''user3'']\<rparr>]\<rparr>"

text \<open>A token verifier that knows one token per user, and a store that never fails.\<close>

definition demo_jwt :: "string \<Rightarrow> jwt_result" where
  "demo_jwt t =
     (if t = ''t1'' then Jwt_payload (Some ''user1'')
      else if t = ''t2'' then Jwt_payload (Some ''user2'')
      else if t = ''t3'' then Jwt_payload (Some ''user3'')
      else Jwt_invalid)"

definition db_ok :: "nat \<Rightarrow> bool" where
  "db_ok i = True"

definition db_down :: "nat \<Rightarrow> bool" where
  "db_down i = False"

text \<open>A store whose \<open>k\<close>-th query throws.\<close>

definition db_fails_at :: "nat \<Rightarrow> nat \<Rightarrow> bool" where
  "db_fails_at k i \<longleftrightarrow> i \<noteq> k"

definition hello :: create_greeting_body where
  "hello = \<lparr>cg_id = JString ''greet9'', cg_content = Some ''{}'', cg_sender_id = JString ''user1'',
            cg_recipient_type = JString ''user'', cg_recipient_id = JString ''user2'',
            cg_status = JString ''sent'', cg_scheduled_at = JUndefined\<rparr>"

definition chat1 :: group_message_body where
  "chat1 = \<lparr>gmb_id = JString ''msg9'', gmb_group_id = JString ''group1'',
            gmb_sender_id = JString ''user1'', gmb_content = JString ''hi''\<rparr>"

text \<open>Requests used below.\<close>

definition approve :: action where
  "approve = Update_greeting_status ''s11'' ''2024-01-01'' db_ok (Some (Some ''greet1'', Some ''delivered''))"

definition rushed :: create_greeting_body where
  "rushed = hello\<lparr>cg_status := JString ''delivered''\<rparr>"

definition reopen :: "(string option \<times> string option) option" where
  "reopen = Some (Some ''greet3'', Some ''pending'')"

definition reopen_put :: update_greeting_body where
  "reopen_put = \<lparr>ug_content = None, ug_sender_id = JUndefined, ug_recipient_type = JUndefined,
                 ug_recipient_id = JUndefined, ug_status = JString ''pending'',
                 ug_scheduled_at = JUndefined\<rparr>"

definition group_hello :: create_greeting_body where
  "group_hello = hello\<lparr>cg_recipient_type := JString ''group'', cg_recipient_id := JString ''group1''\<rparr>"

definition post_hello :: "(nat \<Rightarrow> bool) \<Rightarrow> create_greeting_body \<Rightarrow> response \<times> server \<times> emit list" where
  "post_hello db b = post_greetings demo_jwt db ''u1'' ''u2'' ''2024-01-01'' (Some ''Bearer t1'') b demo"


text \<open>The actions that change the registry of sockets and rooms.\<close>

fun registry_action :: "action \<Rightarrow> bool" where
  "registry_action (Connect db c token) = True"
| "registry_action (Disconnect c) = True"
| "registry_action (Join_group c g) = True"
| "registry_action (Leave_group c g) = True"
| "registry_action a = False"

definition lobby :: server where
  "lobby = join_group ''s13'' ''group1'' demo"

definition say_hi :: action where
  "say_hi = Send_group_message ''s11'' ''u3'' ''2024-01-01'' db_ok chat1"

definition invite :: action where
  "invite = Post_group_members db_ok ''u4'' ''2024-01-02'' (Some ''Bearer t1'') ''group1''
              \<lparr>mb_id = JString ''gm9'', mb_user_id = JString ''user2'', mb_role = JString ''member''\<rparr>"

definition msg9 :: chat_message where
  "msg9 = \<lparr>m_id = ''msg9'', m_group_id = ''group1'', m_sender_id = ''user1'', m_content = ''hi'',
           m_created_at = ''2024-01-01''\<rparr>"

definition gm9 :: group_member where
  "gm9 = \<lparr>gm_id = ''gm9'', gm_group_id = ''group1'', gm_user_id = ''user2'', gm_role = ''member'',
          gm_joined_at = ''2024-01-02''\<rparr>"



section \<open>Auxiliary facts\<close>

lemma filter_Cons_hd: "filter P xs = x # ys \<Longrightarrow> x \<in> set xs \<and> P x"
proof -
  assume "filter P xs = x # ys"
  then have "x \<in> set (filter P xs)" by simp
  then show ?thesis by simp
qed

lemma io_use_Inr:
  "io_use jwt db st token = Inr u \<longleftrightarrow>
     (\<exists>t rest. token = Some t \<and> t \<noteq> [] \<and> jwt t = Jwt_payload (Some (user_id u)) \<and> db 0 \<and>
        filter (\<lambda>r. user_id r = user_id u) (users st) = u # rest)"
  by (auto simp: io_use_def select_user_def split: option.splits jwt_result.splits list.splits if_splits
      dest: filter_Cons_hd)

section \<open>Connection registration\<close>

text \<open>
  Claim C7. A connection attempt registers a connection exactly when identity resolution
  succeeds: the handshake carries a non-empty token, the token verifies, the user lookup
  completes and finds a user with the token's user id. Otherwise the attempt is rejected
  with an authentication error and the registry is unchanged. On success the new
  connection is bound to the resolved user row and sits in that user's personal room.
\<close>

theorem connect_requires_identity:
  "(\<not> (\<exists>t uid. token = Some t \<and> t \<noteq> [] \<and> jwt t = Jwt_payload (Some uid) \<and> db 0 \<and>
               uid \<in> user_id ` set (users st)) \<longrightarrow>
      (\<exists>e. connect jwt db c token st = (Inl e, st))) \<and>
   ((\<exists>t uid. token = Some t \<and> t \<noteq> [] \<and> jwt t = Jwt_payload (Some uid) \<and> db 0 \<and>
               uid \<in> user_id ` set (users st)) \<longrightarrow>
      (\<exists>u \<in> set (users st). \<exists>t. token = Some t \<and> jwt t = Jwt_payload (Some (user_id u)) \<and>
         connect jwt db c token st =
           (Inr c, st\<lparr>sockets := sockets st @ [\<lparr>sid = c, sock_user = u, rooms = List.insert (user_id u) [c]\<rparr>]\<rparr>)))"
proof (cases "io_use jwt db st token")
  case (Inl e)
  have "\<not> (\<exists>t uid. token = Some t \<and> t \<noteq> [] \<and> jwt t = Jwt_payload (Some uid) \<and> db 0 \<and>
               uid \<in> user_id ` set (users st))"
  proof
    assume "\<exists>t uid. token = Some t \<and> t \<noteq> [] \<and> jwt t = Jwt_payload (Some uid) \<and> db 0 \<and>
               uid \<in> user_id ` set (users st)"
    then obtain t uid where h: "token = Some t" "t \<noteq> []" "jwt t = Jwt_payload (Some uid)" "db 0"
      "uid \<in> user_id ` set (users st)" by blast
    then have "filter (\<lambda>r. user_id r = uid) (users st) \<noteq> []"
      by (auto simp: filter_empty_conv)
    with h Inl show False
      by (auto simp: io_use_def select_user_def split: list.splits)
  qed
  moreover have "connect jwt db c token st = (Inl e, st)"
    using Inl by (simp add: connect_def)
  ultimately show ?thesis by blast
next
  case (Inr u)
  then obtain t rest where h: "token = Some t" "t \<noteq> []" "jwt t = Jwt_payload (Some (user_id u))" "db 0"
    "filter (\<lambda>r. user_id r = user_id u) (users st) = u # rest"
    using io_use_Inr by blast
  from h(5) have u: "u \<in> set (users st)" by (auto dest: filter_Cons_hd)
  have "connect jwt db c token st =
     (Inr c, st\<lparr>sockets := sockets st @ [\<lparr>sid = c, sock_user = u, rooms = List.insert (user_id u) [c]\<rparr>]\<rparr>)"
    using Inr by (simp add: connect_def on_connection_def)
  with h u show ?thesis by blast
qed

theorem connect_requires_identity_witness:
  "connect demo_jwt db_ok ''s14'' (Some ''expired'') demo = (Inl ''Authentication failed'', demo) \<and>
   connect demo_jwt db_ok ''s14'' (Some ''t3'') demo =
     (Inr ''s14'', demo\<lparr>sockets := sockets demo @ [\<lparr>sid = ''s14'', sock_user = user3, rooms = [''user3'', ''s14'']\<rparr>]\<rparr>)"
  using connect_requires_identity [of "Some ''expired''" demo_jwt db_ok demo "''s14''"]
    connect_requires_identity [of "Some ''t3''" demo_jwt db_ok demo "''s14''"]
  by (simp add: demo_jwt_def db_ok_def demo_def user1_def user2_def user3_def connect_def io_use_def)

section \<open>Who receives a status change\<close>

lemma update_greeting_status_emits:
  assumes "update_greeting_status c now db data st = (st', es)" "e \<in> set es"
  shows "sockets st' = sockets st \<and>
         ((\<exists>n g. e = Io_emit n (P_greeting g)) \<or> (\<exists>m. e = Socket_emit c ''error'' (P_error m)))"
  using assms
  by (auto simp: update_greeting_status_def Let_def split: option.splits if_splits prod.splits
      dest!: in_set_takeD)

lemma put_greetings_emits:
  assumes "put_greetings jwt db now h gid b st = (r, st', es)" "e \<in> set es"
  shows "sockets st' = sockets st \<and> (\<exists>n g. e = Io_emit n (P_greeting g))"
  using assms
  by (auto simp: put_greetings_def put_greetings_handler_def Let_def
      split: sum.splits if_splits list.splits)

lemma receivers_connected: "set (receivers st e) \<subseteq> set (connected st)"
  by (cases e) (auto simp: resolve_def connected_def)

lemma not_connected_after_disconnect: "c \<notin> set (connected (disconnect c st))"
  by (auto simp: connected_def disconnect_def)

lemma on_socket_cases:
  assumes "on_socket c st h = (st', ds)"
  obtains "st' = st" "ds = []" | s where "s \<in> set (sockets st)" "sid s = c" "emitted (h s) = (st', ds)"
  using assms
  by (auto simp: on_socket_def split: list.splits dest: filter_Cons_hd)

text \<open>
  Claim C1, as the code has it. A status change (the socket event \<^verbatim>\<open>update_greeting_status\<close>
  or \<^verbatim>\<open>PUT /api/greetings/:greeting_id\<close>) emits its greeting event with \<^verbatim>\<open>io.emit\<close>: the event
  is delivered to every connection registered at dispatch time, whatever its user and
  rooms, and to no other. The only other event is the \<^verbatim>\<open>error\<close> sent back to the requesting
  socket. A connection that disconnected before dispatch receives nothing.
\<close>

theorem status_change_is_broadcast:
  assumes "status_change a" and "step jwt a st = (st', ds)" and "(e, rs) \<in> set ds"
  shows "((\<exists>n g. e = Io_emit n (P_greeting g) \<and> rs = connected st) \<or>
          (\<exists>c m. e = Socket_emit c ''error'' (P_error m) \<and> set rs \<subseteq> {c})) \<and>
         set rs \<subseteq> set (connected st) \<and>
         (\<forall>c s0. st = disconnect c s0 \<longrightarrow> c \<notin> set rs)"
proof -
  have main: "((\<exists>n g. e = Io_emit n (P_greeting g) \<and> rs = connected st) \<or>
          (\<exists>c m. e = Socket_emit c ''error'' (P_error m) \<and> set rs \<subseteq> {c})) \<and>
         set rs \<subseteq> set (connected st)"
  proof (cases a)
    case (Update_greeting_status c now db data)
    with assms(2) have "on_socket c st (\<lambda>s. update_greeting_status c now db data st) = (st', ds)"
      by simp
    then show ?thesis
    proof (cases rule: on_socket_cases)
      case 1
      with assms(3) show ?thesis by simp
    next
      case (2 s)
      obtain st1 es where u: "update_greeting_status c now db data st = (st1, es)"
        by (cases "update_greeting_status c now db data st")
      with 2 have st': "st' = st1" and ds: "ds = dispatch st1 es"
        by (auto simp: emitted_def)
      from assms(3) ds have e: "e \<in> set es" and rs: "rs = receivers st1 e"
        by (auto simp: dispatch_def)
      from update_greeting_status_emits [OF u e]
      have sk: "sockets st1 = sockets st"
        and sh: "(\<exists>n g. e = Io_emit n (P_greeting g)) \<or> (\<exists>m. e = Socket_emit c ''error'' (P_error m))"
        by simp_all
      from sk have conn: "connected st1 = connected st" by (simp add: connected_def)
      from sh rs conn receivers_connected [of st1 e] show ?thesis
        by auto
    qed
  next
    case (Put_greetings db now h gid b)
    obtain r st1 es where u: "put_greetings jwt db now h gid b st = (r, st1, es)"
      by (cases "put_greetings jwt db now h gid b st")
    with Put_greetings assms(2) have st': "st' = st1" and ds: "ds = dispatch st1 es"
      by (auto simp: emitted_def)
    from assms(3) ds have e: "e \<in> set es" and rs: "rs = receivers st1 e"
      by (auto simp: dispatch_def)
    from put_greetings_emits [OF u e]
    have sk: "sockets st1 = sockets st" and sh: "\<exists>n g. e = Io_emit n (P_greeting g)"
      by simp_all
    from sk have conn: "connected st1 = connected st" by (simp add: connected_def)
    from sh rs conn show ?thesis by auto
  qed (use assms(1) in simp_all)
  moreover have "\<forall>c s0. st = disconnect c s0 \<longrightarrow> c \<notin> set rs"
    using main not_connected_after_disconnect by blast
  ultimately show ?thesis by blast
qed

theorem status_change_is_broadcast_witness:
  "status_change approve \<and>
   (Io_emit ''greeting_greet1_status''
      (P_greeting (greet1\<lparr>g_status := ''delivered'', g_updated_at := ''2024-01-01''\<rparr>)), [''s11'', ''s13''])
     \<in> set (snd (step demo_jwt approve (disconnect ''s12'' demo))) \<and>
   [''s11'', ''s13''] = connected (disconnect ''s12'' demo) \<and> ''s12'' \<notin> set [''s11'', ''s13'']"
  using status_change_is_broadcast [of approve demo_jwt "disconnect ''s12'' demo"
      "fst (step demo_jwt approve (disconnect ''s12'' demo))" "snd (step demo_jwt approve (disconnect ''s12'' demo))"
      "Io_emit ''greeting_greet1_status''
         (P_greeting (greet1\<lparr>g_status := ''delivered'', g_updated_at := ''2024-01-01''\<rparr>))" "[''s11'', ''s13'']"]
  by (simp add: approve_def demo_def disconnect_def on_socket_def emitted_def dispatch_def connected_def
      update_greeting_status_def update_status_rows_def status_event_def db_ok_def greet1_def greet3_def)

text \<open>
  Claim C1, as stated, fails: connection \<^verbatim>\<open>s13\<close> belongs to \<^verbatim>\<open>user3\<close>, who is neither the sender
  nor the recipient of \<^verbatim>\<open>greet1\<close> and is in neither one's room, and it receives the status
  change of \<^verbatim>\<open>greet1\<close>.
\<close>

theorem status_change_reaches_outsider:
  "snd (step demo_jwt approve demo) =
     [(Io_emit ''greeting_greet1_status'' (P_greeting (greet1\<lparr>g_status := ''delivered'', g_updated_at := ''2024-01-01''\<rparr>)), [''s11'', ''s12'', ''s13''])] \<and>
   g_sender_id greet1 = ''user1'' \<and> g_recipient_id greet1 = ''user2'' \<and>
   ''s13'' \<notin> set (resolve demo ''user1'') \<and> ''s13'' \<notin> set (resolve demo ''user2'') \<and>
   identity demo ''s13'' = [''user3'']"
  by (simp add: approve_def demo_def on_socket_def emitted_def dispatch_def connected_def resolve_def identity_def
      update_greeting_status_def update_status_rows_def status_event_def db_ok_def greet1_def greet3_def user3_def)

section \<open>The status of a new greeting\<close>

lemma is_string_conv: "is_string v \<longleftrightarrow> v = JString (string_of v)"
  by (cases v) simp_all

lemma post_greetings_cases:
  assumes "post_greetings jwt db ug un now h b st = (r, st', es)"
  shows "(st' = st \<and> es = [] \<and> fst r \<noteq> 201) \<or>
         (createGreetingInputSchema b \<and> db 1 \<and> cg_recipient_type b = JString ''user'' \<and> \<not> db 2 \<and>
            r = internal_error \<and> st' = st\<lparr>greetings := greetings st @ [new_greeting ug now b]\<rparr> \<and>
            es = [Io_emit ''greeting_created'' (P_greeting (new_greeting ug now b))]) \<or>
         (createGreetingInputSchema b \<and> db 1 \<and> cg_recipient_type b = JString ''user'' \<and> db 2 \<and>
            r = (201, B_greeting (new_greeting ug now b)) \<and>
            st' = st\<lparr>greetings := greetings st @ [new_greeting ug now b],
                     notifications := notifications st @ [new_notification un now (new_greeting ug now b)]\<rparr> \<and>
            es = [Io_emit ''greeting_created'' (P_greeting (new_greeting ug now b)),
                  Io_to (g_recipient_id (new_greeting ug now b)) ''notification''
                    (P_notification (new_notification un now (new_greeting ug now b)))]) \<or>
         (createGreetingInputSchema b \<and> db 1 \<and> cg_recipient_type b \<noteq> JString ''user'' \<and>
            r = (201, B_greeting (new_greeting ug now b)) \<and>
            st' = st\<lparr>greetings := greetings st @ [new_greeting ug now b]\<rparr> \<and>
            es = [Io_emit ''greeting_created'' (P_greeting (new_greeting ug now b))])"
proof (cases "authenticateToken jwt db st h")
  case (Inl e)
  then have "fst e \<noteq> 201"
    by (auto simp: authenticateToken_def Let_def split: option.splits if_splits jwt_result.splits list.splits)
  with Inl assms show ?thesis by (auto simp: post_greetings_def)
next
  case (Inr u)
  have t: "createGreetingInputSchema b \<Longrightarrow>
      (string_of (cg_recipient_type b) = ''user'') = (cg_recipient_type b = JString ''user'')"
    by (cases "cg_recipient_type b") (simp_all add: createGreetingInputSchema_def)
  from Inr assms have "post_greetings_handler db ug un now b st = (r, st', es)"
    by (simp add: post_greetings_def)
  then show ?thesis
    using t
    by (auto simp: post_greetings_handler_def Let_def validation_error_def internal_error_def
        split: if_splits)
qed

text \<open>
  Claim C3, as the code has it. The status stored for a new greeting is the \<^verbatim>\<open>status\<close>
  field of the request, one of \<^verbatim>\<open>sent\<close>, \<^verbatim>\<open>pending\<close>, \<^verbatim>\<open>delivered\<close>, \<^verbatim>\<open>failed\<close>; \<^verbatim>\<open>scheduled_at\<close> is
  stored beside it and plays no part in the choice.
\<close>

theorem initial_status_from_request:
  assumes "post_greetings jwt db ug un now h b st = (r, st', es)" and "fst r = 201"
  shows "\<exists>g. greetings st' = greetings st @ [g] \<and> r = (201, B_greeting g) \<and>
             cg_status b = JString (g_status g) \<and> g_status g \<in> set status_enum \<and>
             g_scheduled_at g = or_null (cg_scheduled_at b)"
proof -
  from post_greetings_cases [OF assms(1)] assms(2)
  have v: "createGreetingInputSchema b" and g: "greetings st' = greetings st @ [new_greeting ug now b]"
    and r: "r = (201, B_greeting (new_greeting ug now b))"
    by (auto simp: internal_error_def)
  from v have s: "cg_status b = JString (g_status (new_greeting ug now b))"
    "g_status (new_greeting ug now b) \<in> set status_enum"
    by (simp_all add: createGreetingInputSchema_def new_greeting_def is_string_conv [symmetric])
  have "g_scheduled_at (new_greeting ug now b) = or_null (cg_scheduled_at b)"
    by (simp add: new_greeting_def)
  with g r s show ?thesis by blast
qed

theorem initial_status_from_request_witness:
  "post_greetings demo_jwt db_ok ''u1'' ''u2'' ''2024-01-01'' (Some ''Bearer t1'') rushed demo =
     ((201, B_greeting (new_greeting ''u1'' ''2024-01-01'' rushed)),
      demo\<lparr>greetings := greetings demo @ [new_greeting ''u1'' ''2024-01-01'' rushed],
            notifications := notifications demo @
              [new_notification ''u2'' ''2024-01-01'' (new_greeting ''u1'' ''2024-01-01'' rushed)]\<rparr>,
      [Io_emit ''greeting_created'' (P_greeting (new_greeting ''u1'' ''2024-01-01'' rushed)),
       Io_to ''user2'' ''notification''
         (P_notification (new_notification ''u2'' ''2024-01-01'' (new_greeting ''u1'' ''2024-01-01'' rushed)))]) \<and>
   cg_status rushed = JString ''delivered'' \<and>
   g_status (new_greeting ''u1'' ''2024-01-01'' rushed) = ''delivered''"
  using initial_status_from_request [of demo_jwt db_ok "''u1''" "''u2''" "''2024-01-01''" "Some ''Bearer t1''" rushed demo
      "(201, B_greeting (new_greeting ''u1'' ''2024-01-01'' rushed))"]
  by (simp add: post_greetings_def authenticateToken_def bearer_token_def demo_jwt_def db_ok_def
      select_user_def demo_def user1_def user2_def user3_def post_greetings_handler_def
      createGreetingInputSchema_def rushed_def hello_def status_enum_def new_greeting_def or_else_def
      new_notification_def Let_def)

text \<open>
  Claim C3, as stated, fails: a request without \<^verbatim>\<open>scheduled_at\<close> and with status \<^verbatim>\<open>delivered\<close>
  is stored as \<^verbatim>\<open>delivered\<close>, where the specification's rule gives \<^verbatim>\<open>sent\<close>.
\<close>

theorem initial_status_ignores_schedule:
  "fst (post_greetings demo_jwt db_ok ''u1'' ''u2'' ''2024-01-01'' (Some ''Bearer t1'') rushed demo) =
     (201, B_greeting (new_greeting ''u1'' ''2024-01-01'' rushed)) \<and>
   g_status (new_greeting ''u1'' ''2024-01-01'' rushed) = ''delivered'' \<and>
   spec_initial_status ''2024-01-01'' (g_scheduled_at (new_greeting ''u1'' ''2024-01-01'' rushed)) = ''sent''"
  by (simp add: post_greetings_def authenticateToken_def bearer_token_def demo_jwt_def db_ok_def
      select_user_def demo_def user1_def user2_def user3_def post_greetings_handler_def
      createGreetingInputSchema_def rushed_def hello_def status_enum_def new_greeting_def or_else_def
      new_notification_def spec_initial_status_def Let_def)

section \<open>Status updates and the lifecycle\<close>

lemma update_status_rows_ids: "map g_id (update_status_rows gid s now gs) = map g_id gs"
  by (induction gs) (simp_all add: update_status_rows_def)

lemma in_map: "y \<in> set (map f xs) \<Longrightarrow> \<exists>x. x \<in> set xs \<and> y = f x"
  by auto

lemma update_status_rows_status:
  "g \<in> set (update_status_rows gid s now gs) \<Longrightarrow> g_id g = gid \<Longrightarrow> g_status g = s"
proof -
  assume m: "g \<in> set (update_status_rows gid s now gs)" and i: "g_id g = gid"
  from in_map [OF m [unfolded update_status_rows_def]]
  obtain g0 where g0: "g = (if g_id g0 = gid then g0\<lparr>g_status := s, g_updated_at := now\<rparr> else g0)"
    by blast
  show ?thesis
  proof (cases "g_id g0 = gid")
    case True
    with g0 show ?thesis by simp
  next
    case False
    with g0 have "g = g0" by simp
    with False i show ?thesis by simp
  qed
qed

lemma ex_with_id: "k \<in> set (map f xs) \<Longrightarrow> \<exists>x. x \<in> set xs \<and> f x = k"
  by auto

lemma filter_nonempty: "x \<in> set xs \<Longrightarrow> P x \<Longrightarrow> filter P xs \<noteq> []"
  by (auto simp: filter_empty_conv)

lemma nonempty_Cons: "xs \<noteq> [] \<Longrightarrow> \<exists>y ys. xs = y # ys"
  by (cases xs) simp_all

lemma take1_filter:
  "x \<in> set xs \<Longrightarrow> P x \<Longrightarrow> \<exists>y. take 1 (filter P xs) = [y] \<and> y \<in> set xs \<and> P y"
proof -
  assume "x \<in> set xs" "P x"
  then have "filter P xs \<noteq> []" by (rule filter_nonempty)
  then obtain y ys where f: "filter P xs = y # ys" using nonempty_Cons by blast
  from filter_Cons_hd [OF f] have "y \<in> set xs" "P y" by simp_all
  then show ?thesis unfolding f by simp
qed

lemma update_greeting_status_hit:
  "db 0 \<Longrightarrow> filter (\<lambda>g. g_id g = gid) (greetings st) \<noteq> [] \<Longrightarrow>
   update_greeting_status c now db (Some (Some gid, Some s)) st =
     (st\<lparr>greetings := update_status_rows gid s now (greetings st)\<rparr>,
      map (\<lambda>g. Io_emit (status_event gid) (P_greeting g))
          (take 1 (filter (\<lambda>g. g_id g = gid) (update_status_rows gid s now (greetings st)))))"
  by (simp add: update_greeting_status_def Let_def)

lemma update_greeting_status_ok:
  assumes "db 0" and "gid \<in> g_id ` set (greetings st)"
  shows "\<exists>g. update_greeting_status c now db (Some (Some gid, Some s)) st =
               (st\<lparr>greetings := update_status_rows gid s now (greetings st)\<rparr>,
                [Io_emit (status_event gid) (P_greeting g)]) \<and>
             g \<in> set (update_status_rows gid s now (greetings st)) \<and> g_id g = gid \<and> g_status g = s"
proof -
  from assms(2) obtain g0 where g0: "g0 \<in> set (greetings st)" "g_id g0 = gid" by auto
  then have ne: "filter (\<lambda>g. g_id g = gid) (greetings st) \<noteq> []"
    by (auto simp: filter_empty_conv)
  from assms(2) have "gid \<in> set (map g_id (update_status_rows gid s now (greetings st)))"
    by (simp add: update_status_rows_ids)
  from ex_with_id [OF this]
  obtain g1 where "g1 \<in> set (update_status_rows gid s now (greetings st))" "g_id g1 = gid"
    by blast
  from take1_filter [of g1 _ "\<lambda>g. g_id g = gid", OF this]
  obtain g where g: "take 1 (filter (\<lambda>g. g_id g = gid) (update_status_rows gid s now (greetings st))) = [g]"
    "g \<in> set (update_status_rows gid s now (greetings st))" "g_id g = gid"
    by blast
  from g(2,3) have s: "g_status g = s" by (rule update_status_rows_status)
  show ?thesis
    unfolding update_greeting_status_hit [of db gid st c now s, OF assms(1) ne] g(1)
    using g(2,3) s by (intro exI [of _ g]) simp
qed

lemma apply_update_status: "ug_status b = JString s \<Longrightarrow> g_status (apply_update now b g) = s"
  by (simp add: apply_update_def)

lemma apply_update_id: "g_id (apply_update now b g) = g_id g"
  by (simp add: apply_update_def)

lemma put_rows_ids:
  "map g_id (map (\<lambda>g. if g_id g = gid then apply_update now b g else g) gs) = map g_id gs"
  by (induction gs) (simp_all add: apply_update_id)

lemma put_rows_status:
  "ug_status b = JString s \<Longrightarrow>
   g \<in> set (map (\<lambda>g. if g_id g = gid then apply_update now b g else g) gs) \<Longrightarrow>
   g_id g = gid \<Longrightarrow> g_status g = s"
proof -
  assume u: "ug_status b = JString s"
    and m: "g \<in> set (map (\<lambda>g. if g_id g = gid then apply_update now b g else g) gs)"
    and i: "g_id g = gid"
  from in_map [OF m]
  obtain g0 where g0: "g = (if g_id g0 = gid then apply_update now b g0 else g0)"
    by blast
  show ?thesis
  proof (cases "g_id g0 = gid")
    case True
    with g0 u show ?thesis by (simp add: apply_update_status)
  next
    case False
    with g0 have "g = g0" by simp
    with False i show ?thesis by simp
  qed
qed

lemma put_greetings_ok:
  assumes "authenticateToken jwt db st h = Inr u" and "db 1" and "updateGreetingInputSchema b"
    and "gid \<in> g_id ` set (greetings st)"
  shows "\<exists>g. put_greetings jwt db now h gid b st =
               ((200, B_greeting g),
                st\<lparr>greetings := map (\<lambda>g. if g_id g = gid then apply_update now b g else g) (greetings st)\<rparr>,
                [Io_emit (updated_event gid) (P_greeting g)]) \<and>
             g \<in> set (map (\<lambda>g. if g_id g = gid then apply_update now b g else g) (greetings st)) \<and>
             g_id g = gid"
proof -
  let ?gs = "map (\<lambda>g. if g_id g = gid then apply_update now b g else g) (greetings st)"
  from assms(4) have "gid \<in> set (map g_id ?gs)" by (simp only: put_rows_ids) simp
  from ex_with_id [OF this]
  obtain g1 where "g1 \<in> set ?gs" "g_id g1 = gid" by blast
  from take1_filter [of g1 _ "\<lambda>g. g_id g = gid", OF this]
  obtain g where "take 1 (filter (\<lambda>g. g_id g = gid) ?gs) = [g]" and g: "g \<in> set ?gs" "g_id g = gid"
    by blast
  then obtain rest where f: "filter (\<lambda>g. g_id g = gid) ?gs = g # rest"
    by (cases "filter (\<lambda>g. g_id g = gid) ?gs") simp_all
  have eq: "put_greetings jwt db now h gid b st =
               ((200, B_greeting g), st\<lparr>greetings := ?gs\<rparr>, [Io_emit (updated_event gid) (P_greeting g)])"
    using assms(1-3) f by (simp add: put_greetings_def put_greetings_handler_def Let_def)
  from eq g show ?thesis by (intro exI [of _ g] conjI)
qed

lemma demo_auth: "authenticateToken demo_jwt db_ok demo (Some ''Bearer t1'') = Inr user1"
  by (simp add: authenticateToken_def bearer_token_def demo_jwt_def db_ok_def select_user_def demo_def
      user1_def user2_def user3_def)

lemma reopen_run:
  "update_greeting_status ''s11'' ''2024-01-01'' db_ok reopen demo =
     (demo\<lparr>greetings := [greet1, greet3\<lparr>g_status := ''pending'', g_updated_at := ''2024-01-01''\<rparr>]\<rparr>,
      [Io_emit ''greeting_greet3_status''
         (P_greeting (greet3\<lparr>g_status := ''pending'', g_updated_at := ''2024-01-01''\<rparr>))])"
  by (simp add: demo_def db_ok_def update_greeting_status_def update_status_rows_def status_event_def
      greet1_def greet3_def reopen_def Let_def)

lemma reopen_put_run:
  "put_greetings demo_jwt db_ok ''2024-01-01'' (Some ''Bearer t1'') ''greet3'' reopen_put demo =
     ((200, B_greeting (greet3\<lparr>g_status := ''pending'', g_updated_at := ''2024-01-01''\<rparr>)),
      demo\<lparr>greetings := [greet1, greet3\<lparr>g_status := ''pending'', g_updated_at := ''2024-01-01''\<rparr>]\<rparr>,
      [Io_emit ''greeting_greet3_updated''
         (P_greeting (greet3\<lparr>g_status := ''pending'', g_updated_at := ''2024-01-01''\<rparr>))])"
  by (simp add: put_greetings_def demo_auth)
    (simp add: demo_def put_greetings_handler_def updateGreetingInputSchema_def reopen_put_def
      status_enum_def db_ok_def apply_update_def updated_event_def greet1_def greet3_def Let_def)

text \<open>
  Claim C2, as the code has it. Neither status-update path looks at the stored status.
  Whenever the greeting exists and the write completes, the socket event
  \<^verbatim>\<open>update_greeting_status\<close> and \<^verbatim>\<open>PUT /api/greetings/:greeting_id\<close> (with a status in the body)
  store the requested status in every row of that id, whatever the stored status was,
  \<^verbatim>\<open>delivered\<close> and \<^verbatim>\<open>failed\<close> included, and broadcast the updated row; no rejection is
  signalled.
\<close>

theorem status_update_overwrites:
  "(db 0 \<and> gid \<in> g_id ` set (greetings st) \<longrightarrow>
      (case update_greeting_status c now db (Some (Some gid, Some s)) st of
         (st', es) \<Rightarrow>
           (\<exists>g. es = [Io_emit (status_event gid) (P_greeting g)] \<and> g \<in> set (greetings st') \<and> g_id g = gid) \<and>
           map g_id (greetings st') = map g_id (greetings st) \<and>
           (\<forall>g' \<in> set (greetings st'). g_id g' = gid \<longrightarrow> g_status g' = s))) \<and>
   (authenticateToken jwt db st h = Inr u \<and> db 1 \<and> updateGreetingInputSchema b \<and>
    ug_status b = JString s \<and> gid \<in> g_id ` set (greetings st) \<longrightarrow>
      (case put_greetings jwt db now h gid b st of
         (r, st', es) \<Rightarrow>
           (\<exists>g. r = (200, B_greeting g) \<and> es = [Io_emit (updated_event gid) (P_greeting g)] \<and>
                g \<in> set (greetings st') \<and> g_id g = gid) \<and>
           map g_id (greetings st') = map g_id (greetings st) \<and>
           (\<forall>g' \<in> set (greetings st'). g_id g' = gid \<longrightarrow> g_status g' = s)))"
proof (intro conjI impI)
  assume a: "db 0 \<and> gid \<in> g_id ` set (greetings st)"
  with update_greeting_status_ok [of db gid st c now s]
  obtain g where eq: "update_greeting_status c now db (Some (Some gid, Some s)) st =
               (st\<lparr>greetings := update_status_rows gid s now (greetings st)\<rparr>,
                [Io_emit (status_event gid) (P_greeting g)])"
    and g: "g \<in> set (update_status_rows gid s now (greetings st))" "g_id g = gid"
    by blast
  show "case update_greeting_status c now db (Some (Some gid, Some s)) st of
         (st', es) \<Rightarrow>
           (\<exists>g. es = [Io_emit (status_event gid) (P_greeting g)] \<and> g \<in> set (greetings st') \<and> g_id g = gid) \<and>
           map g_id (greetings st') = map g_id (greetings st) \<and>
           (\<forall>g' \<in> set (greetings st'). g_id g' = gid \<longrightarrow> g_status g' = s)"
    unfolding eq prod.case
  proof (intro conjI ballI impI)
    show "\<exists>ga. [Io_emit (status_event gid) (P_greeting g)] = [Io_emit (status_event gid) (P_greeting ga)] \<and>
      ga \<in> set (greetings (st\<lparr>greetings := update_status_rows gid s now (greetings st)\<rparr>)) \<and> g_id ga = gid"
      using g by (intro exI [of _ g]) simp
    show "map g_id (greetings (st\<lparr>greetings := update_status_rows gid s now (greetings st)\<rparr>)) =
      map g_id (greetings st)"
      by (simp add: update_status_rows_ids)
  next
    fix g'
    assume "g' \<in> set (greetings (st\<lparr>greetings := update_status_rows gid s now (greetings st)\<rparr>))"
      and i: "g_id g' = gid"
    then have "g' \<in> set (update_status_rows gid s now (greetings st))" by simp
    from this i show "g_status g' = s" by (rule update_status_rows_status)
  qed
next
  assume a: "authenticateToken jwt db st h = Inr u \<and> db 1 \<and> updateGreetingInputSchema b \<and>
    ug_status b = JString s \<and> gid \<in> g_id ` set (greetings st)"
  then have s: "ug_status b = JString s" by simp
  from a put_greetings_ok [of jwt db st h u b gid now]
  obtain g where eq: "put_greetings jwt db now h gid b st =
               ((200, B_greeting g),
                st\<lparr>greetings := map (\<lambda>g. if g_id g = gid then apply_update now b g else g) (greetings st)\<rparr>,
                [Io_emit (updated_event gid) (P_greeting g)])"
    and g: "g \<in> set (map (\<lambda>g. if g_id g = gid then apply_update now b g else g) (greetings st))"
      "g_id g = gid"
    by blast
  show "case put_greetings jwt db now h gid b st of
         (r, st', es) \<Rightarrow>
           (\<exists>g. r = (200, B_greeting g) \<and> es = [Io_emit (updated_event gid) (P_greeting g)] \<and>
                g \<in> set (greetings st') \<and> g_id g = gid) \<and>
           map g_id (greetings st') = map g_id (greetings st) \<and>
           (\<forall>g' \<in> set (greetings st'). g_id g' = gid \<longrightarrow> g_status g' = s)"
    unfolding eq prod.case
  proof (intro conjI ballI impI)
    show "\<exists>ga. (200, B_greeting g) = (200, B_greeting ga) \<and>
      [Io_emit (updated_event gid) (P_greeting g)] = [Io_emit (updated_event gid) (P_greeting ga)] \<and>
      ga \<in> set (greetings (st\<lparr>greetings :=
        map (\<lambda>g. if g_id g = gid then apply_update now b g else g) (greetings st)\<rparr>)) \<and> g_id ga = gid"
      using g by (intro exI [of _ g]) simp
    show "map g_id (greetings (st\<lparr>greetings :=
        map (\<lambda>g. if g_id g = gid then apply_update now b g else g) (greetings st)\<rparr>)) =
      map g_id (greetings st)"
      by (simp add: put_rows_ids del: map_map)
  next
    fix g'
    assume "g' \<in> set (greetings (st\<lparr>greetings :=
        map (\<lambda>g. if g_id g = gid then apply_update now b g else g) (greetings st)\<rparr>))"
      and i: "g_id g' = gid"
    then have "g' \<in> set (map (\<lambda>g. if g_id g = gid then apply_update now b g else g) (greetings st))"
      by (simp del: set_map)
    from s this i show "g_status g' = s" by (rule put_rows_status)
  qed
qed

theorem status_update_overwrites_witness:
  "spec_terminal (g_status greet3) \<and> greet3 \<in> set (greetings demo) \<and> db_ok 0 \<and> db_ok 1 \<and>
   authenticateToken demo_jwt db_ok demo (Some ''Bearer t1'') = Inr user1 \<and>
   updateGreetingInputSchema reopen_put \<and> ug_status reopen_put = JString ''pending'' \<and>
   map g_status (filter (\<lambda>g. g_id g = ''greet3'')
     (greetings (fst (update_greeting_status ''s11'' ''2024-01-01'' db_ok (Some (Some ''greet3'', Some ''pending'')) demo))))
     = [''pending''] \<and>
   map g_status (filter (\<lambda>g. g_id g = ''greet3'')
     (greetings (fst (snd (put_greetings demo_jwt db_ok ''2024-01-01'' (Some ''Bearer t1'') ''greet3'' reopen_put demo)))))
     = [''pending'']"
  using status_update_overwrites [where db = db_ok and gid = "''greet3''" and st = demo and c = "''s11''"
      and now = "''2024-01-01''" and s = "''pending''" and jwt = demo_jwt and h = "Some ''Bearer t1''"
      and u = user1 and b = reopen_put]
  by (simp add: reopen_run [unfolded reopen_def] reopen_put_run demo_auth)
    (simp add: demo_def greet1_def greet3_def spec_terminal_def db_ok_def updateGreetingInputSchema_def
      reopen_put_def status_enum_def)

text \<open>
  Claim C2, as stated, fails: \<^verbatim>\<open>greet3\<close> is stored as \<^verbatim>\<open>delivered\<close>, a status update to
  \<^verbatim>\<open>pending\<close> is accepted, stored and broadcast.
\<close>

theorem terminal_status_left:
  "spec_terminal (g_status greet3) \<and> greet3 \<in> set (greetings demo) \<and>
   greetings (fst (update_greeting_status ''s11'' ''2024-01-01'' db_ok reopen demo)) =
     [greet1, greet3\<lparr>g_status := ''pending'', g_updated_at := ''2024-01-01''\<rparr>] \<and>
   snd (update_greeting_status ''s11'' ''2024-01-01'' db_ok reopen demo) =
     [Io_emit ''greeting_greet3_status''
         (P_greeting (greet3\<lparr>g_status := ''pending'', g_updated_at := ''2024-01-01''\<rparr>))]"
  by (simp add: reopen_run) (simp add: spec_terminal_def greet3_def demo_def)

section \<open>Creating a greeting\<close>

lemma demo_auth_any: "db 0 \<Longrightarrow> authenticateToken demo_jwt db demo (Some ''Bearer t1'') = Inr user1"
  by (simp add: authenticateToken_def bearer_token_def demo_jwt_def select_user_def demo_def
      user1_def user2_def user3_def)

lemma hello_valid: "createGreetingInputSchema hello"
  by (simp add: createGreetingInputSchema_def hello_def status_enum_def)

lemma group_hello_valid: "createGreetingInputSchema group_hello"
  by (simp add: createGreetingInputSchema_def hello_def group_hello_def status_enum_def)


lemma post_hello_notification_fails:
  "post_hello (db_fails_at 2) hello =
     (internal_error,
      demo\<lparr>greetings := greetings demo @ [new_greeting ''u1'' ''2024-01-01'' hello]\<rparr>,
      [Io_emit ''greeting_created'' (P_greeting (new_greeting ''u1'' ''2024-01-01'' hello))])"
  unfolding post_hello_def post_greetings_def
  by (simp add: demo_auth_any db_fails_at_def)
    (simp add: post_greetings_handler_def hello_valid Let_def db_fails_at_def, simp add: hello_def)

lemma post_hello_group:
  "post_hello db_ok group_hello =
     ((201, B_greeting (new_greeting ''u1'' ''2024-01-01'' group_hello)),
      demo\<lparr>greetings := greetings demo @ [new_greeting ''u1'' ''2024-01-01'' group_hello]\<rparr>,
      [Io_emit ''greeting_created'' (P_greeting (new_greeting ''u1'' ''2024-01-01'' group_hello))])"
  unfolding post_hello_def post_greetings_def
  by (simp add: demo_auth_any db_ok_def)
    (simp add: post_greetings_handler_def group_hello_valid Let_def db_ok_def, simp add: hello_def group_hello_def)

lemma post_hello_down: "post_hello db_down hello = ((403, B_error ''Invalid or expired token'' ''AUTH_TOKEN_INVALID''), demo, [])"
  unfolding post_hello_def post_greetings_def
  by (simp add: authenticateToken_def bearer_token_def demo_jwt_def db_down_def)

lemma auth_rejects: "authenticateToken jwt db st h = Inl r \<Longrightarrow> fst r \<noteq> 201"
  by (auto simp: authenticateToken_def Let_def
      split: option.splits if_splits jwt_result.splits list.splits)

lemma post_greetings_no_insert:
  "\<not> db 1 \<Longrightarrow> \<exists>r. post_greetings jwt db ug un now h b st = (r, st, []) \<and> fst r \<noteq> 201"
proof (cases "authenticateToken jwt db st h")
  case (Inl r)
  then show ?thesis using auth_rejects [OF Inl] by (simp add: post_greetings_def)
next
  case (Inr u)
  assume "\<not> db 1"
  with Inr show ?thesis
    by (simp add: post_greetings_def post_greetings_handler_def validation_error_def internal_error_def)
qed

lemma user_type_conv:
  "createGreetingInputSchema b \<Longrightarrow>
     (string_of (cg_recipient_type b) = ''user'') = (cg_recipient_type b = JString ''user'')"
  by (cases "cg_recipient_type b") (simp_all add: createGreetingInputSchema_def)

lemma post_greetings_user_ok:
  assumes "authenticateToken jwt db st h = Inr u" and "createGreetingInputSchema b" and "db 1"
    and "cg_recipient_type b = JString ''user''" and "db 2"
  shows "post_greetings jwt db ug un now h b st =
     ((201, B_greeting (new_greeting ug now b)),
      st\<lparr>greetings := greetings st @ [new_greeting ug now b],
         notifications := notifications st @ [new_notification un now (new_greeting ug now b)]\<rparr>,
      [Io_emit ''greeting_created'' (P_greeting (new_greeting ug now b)),
       Io_to (g_recipient_id (new_greeting ug now b)) ''notification''
         (P_notification (new_notification un now (new_greeting ug now b)))])"
  using assms(1,2,3,5) user_type_conv [OF assms(2)] assms(4)
  by (simp add: post_greetings_def post_greetings_handler_def Let_def)

lemma post_greetings_user_fail:
  assumes "authenticateToken jwt db st h = Inr u" and "createGreetingInputSchema b" and "db 1"
    and "cg_recipient_type b = JString ''user''" and "\<not> db 2"
  shows "post_greetings jwt db ug un now h b st =
     (internal_error,
      st\<lparr>greetings := greetings st @ [new_greeting ug now b]\<rparr>,
      [Io_emit ''greeting_created'' (P_greeting (new_greeting ug now b))])"
  using assms(1,2,3,5) user_type_conv [OF assms(2)] assms(4)
  by (simp add: post_greetings_def post_greetings_handler_def Let_def)

lemma post_greetings_other:
  assumes "authenticateToken jwt db st h = Inr u" and "createGreetingInputSchema b" and "db 1"
    and "cg_recipient_type b \<noteq> JString ''user''"
  shows "post_greetings jwt db ug un now h b st =
     ((201, B_greeting (new_greeting ug now b)),
      st\<lparr>greetings := greetings st @ [new_greeting ug now b]\<rparr>,
      [Io_emit ''greeting_created'' (P_greeting (new_greeting ug now b))])"
  using assms(1,2,3) user_type_conv [OF assms(2)] assms(4)
  by (simp add: post_greetings_def post_greetings_handler_def Let_def)

lemma post_greetings_refused:
  assumes "\<not> ((\<exists>u. authenticateToken jwt db st h = Inr u) \<and> createGreetingInputSchema b \<and> db 1)"
  shows "fst (snd (post_greetings jwt db ug un now h b st)) = st \<and>
         snd (snd (post_greetings jwt db ug un now h b st)) = [] \<and>
         fst (fst (post_greetings jwt db ug un now h b st)) \<noteq> 201"
proof (cases "authenticateToken jwt db st h")
  case (Inl r)
  with auth_rejects [OF Inl] show ?thesis by (simp add: post_greetings_def)
next
  case (Inr u)
  with assms have "\<not> createGreetingInputSchema b \<or> \<not> db 1" by simp
  with Inr show ?thesis
    by (auto simp: post_greetings_def post_greetings_handler_def validation_error_def internal_error_def)
qed

lemma new_greeting_fields:
  "createGreetingInputSchema b \<Longrightarrow>
     cg_recipient_id b = JString (g_recipient_id (new_greeting ug now b)) \<and>
     cg_recipient_type b = JString (g_recipient_type (new_greeting ug now b)) \<and>
     cg_status b = JString (g_status (new_greeting ug now b))"
  by (simp add: createGreetingInputSchema_def new_greeting_def is_string_conv [symmetric])

text \<open>
  Claim C8, as far as the code supports it. Let \<open>g\<close> be the row the request would insert and \<open>n\<close>
  the notification row for it (recipient of \<open>g\<close>, id of \<open>g\<close>, \<open>read_at\<close> null). For a request that
  passes authentication and validation and whose greeting insert completes, the whole result is
  fixed by the recipient type and by the outcome of the notification insert: with recipient type
  \<^verbatim>\<open>user\<close> and a completed insert, \<open>n\<close> is appended and pushed to the recipient's room; with
  recipient type \<^verbatim>\<open>user\<close> and a failing insert the greeting stays stored and broadcast, no
  notification row is added and the answer is an error; with any other recipient type no
  notification row is added. A request refused earlier changes nothing and emits nothing.
\<close>

theorem notification_on_user_creation:
  assumes "g = new_greeting ug now b" and "n = new_notification un now g"
  shows "((\<exists>u. authenticateToken jwt db st h = Inr u) \<and> createGreetingInputSchema b \<and> db 1 \<and>
          cg_recipient_type b = JString ''user'' \<and> db 2 \<longrightarrow>
            post_greetings jwt db ug un now h b st =
              ((201, B_greeting g),
               st\<lparr>greetings := greetings st @ [g], notifications := notifications st @ [n]\<rparr>,
               [Io_emit ''greeting_created'' (P_greeting g),
                Io_to (g_recipient_id g) ''notification'' (P_notification n)])) \<and>
         ((\<exists>u. authenticateToken jwt db st h = Inr u) \<and> createGreetingInputSchema b \<and> db 1 \<and>
          cg_recipient_type b = JString ''user'' \<and> \<not> db 2 \<longrightarrow>
            post_greetings jwt db ug un now h b st =
              (internal_error, st\<lparr>greetings := greetings st @ [g]\<rparr>,
               [Io_emit ''greeting_created'' (P_greeting g)])) \<and>
         ((\<exists>u. authenticateToken jwt db st h = Inr u) \<and> createGreetingInputSchema b \<and> db 1 \<and>
          cg_recipient_type b \<noteq> JString ''user'' \<longrightarrow>
            post_greetings jwt db ug un now h b st =
              ((201, B_greeting g), st\<lparr>greetings := greetings st @ [g]\<rparr>,
               [Io_emit ''greeting_created'' (P_greeting g)])) \<and>
         (\<not> ((\<exists>u. authenticateToken jwt db st h = Inr u) \<and> createGreetingInputSchema b \<and> db 1) \<longrightarrow>
            fst (snd (post_greetings jwt db ug un now h b st)) = st \<and>
            snd (snd (post_greetings jwt db ug un now h b st)) = []) \<and>
         n = \<lparr>n_id = un, n_user_id = g_recipient_id g, n_greeting_id = Some (g_id g),
              n_message = ''You received a new greeting!'', n_read_at = None, n_created_at = now\<rparr> \<and>
         (createGreetingInputSchema b \<longrightarrow>
            cg_recipient_id b = JString (g_recipient_id g) \<and>
            cg_recipient_type b = JString (g_recipient_type g))"
proof (intro conjI impI)
  assume "(\<exists>u. authenticateToken jwt db st h = Inr u) \<and> createGreetingInputSchema b \<and> db 1 \<and>
          cg_recipient_type b = JString ''user'' \<and> db 2"
  then obtain u where "authenticateToken jwt db st h = Inr u" "createGreetingInputSchema b" "db 1"
    "cg_recipient_type b = JString ''user''" "db 2" by blast
  then show "post_greetings jwt db ug un now h b st =
              ((201, B_greeting g),
               st\<lparr>greetings := greetings st @ [g], notifications := notifications st @ [n]\<rparr>,
               [Io_emit ''greeting_created'' (P_greeting g),
                Io_to (g_recipient_id g) ''notification'' (P_notification n)])"
    unfolding assms by (rule post_greetings_user_ok)
next
  assume "(\<exists>u. authenticateToken jwt db st h = Inr u) \<and> createGreetingInputSchema b \<and> db 1 \<and>
          cg_recipient_type b = JString ''user'' \<and> \<not> db 2"
  then obtain u where "authenticateToken jwt db st h = Inr u" "createGreetingInputSchema b" "db 1"
    "cg_recipient_type b = JString ''user''" "\<not> db 2" by blast
  then show "post_greetings jwt db ug un now h b st =
              (internal_error, st\<lparr>greetings := greetings st @ [g]\<rparr>,
               [Io_emit ''greeting_created'' (P_greeting g)])"
    unfolding assms by (rule post_greetings_user_fail)
next
  assume "(\<exists>u. authenticateToken jwt db st h = Inr u) \<and> createGreetingInputSchema b \<and> db 1 \<and>
          cg_recipient_type b \<noteq> JString ''user''"
  then obtain u where "authenticateToken jwt db st h = Inr u" "createGreetingInputSchema b" "db 1"
    "cg_recipient_type b \<noteq> JString ''user''" by blast
  then show "post_greetings jwt db ug un now h b st =
              ((201, B_greeting g), st\<lparr>greetings := greetings st @ [g]\<rparr>,
               [Io_emit ''greeting_created'' (P_greeting g)])"
    unfolding assms by (rule post_greetings_other)
next
  assume r: "\<not> ((\<exists>u. authenticateToken jwt db st h = Inr u) \<and> createGreetingInputSchema b \<and> db 1)"
  from post_greetings_refused [OF r]
  show "fst (snd (post_greetings jwt db ug un now h b st)) = st"
    and "snd (snd (post_greetings jwt db ug un now h b st)) = []"
    by simp_all
next
  show "n = \<lparr>n_id = un, n_user_id = g_recipient_id g, n_greeting_id = Some (g_id g),
              n_message = ''You received a new greeting!'', n_read_at = None, n_created_at = now\<rparr>"
    unfolding assms(2) by (simp add: new_notification_def)
next
  assume v: "createGreetingInputSchema b"
  from new_greeting_fields [OF v, of ug now]
  show "cg_recipient_id b = JString (g_recipient_id g)"
    and "cg_recipient_type b = JString (g_recipient_type g)"
    unfolding assms(1) by simp_all
qed



lemma demo_notifications: "notifications demo = [note1]"
  by (simp add: demo_def)

lemma hello_notification:
  "new_notification ''u2'' ''2024-01-01'' (new_greeting ''u1'' ''2024-01-01'' hello) =
     \<lparr>n_id = ''u2'', n_user_id = ''user2'', n_greeting_id = Some ''greet9'',
      n_message = ''You received a new greeting!'', n_read_at = None,
      n_created_at = ''2024-01-01''\<rparr>"
  by (simp add: new_notification_def new_greeting_def hello_def or_else_def)

theorem notification_on_user_creation_witness:
  "authenticateToken demo_jwt db_ok demo (Some ''Bearer t1'') = Inr user1 \<and>
   createGreetingInputSchema hello \<and> db_ok 1 \<and> db_ok 2 \<and>
   cg_recipient_type hello = JString ''user'' \<and>
   notifications (fst (snd (post_hello db_ok hello))) =
     [note1, \<lparr>n_id = ''u2'', n_user_id = ''user2'', n_greeting_id = Some ''greet9'',
              n_message = ''You received a new greeting!'', n_read_at = None,
              n_created_at = ''2024-01-01''\<rparr>] \<and>
   createGreetingInputSchema group_hello \<and> cg_recipient_type group_hello = JString ''group'' \<and>
   notifications (fst (snd (post_hello db_ok group_hello))) = [note1]"
proof -
  note user = notification_on_user_creation [where b = hello and ug = "''u1''" and un = "''u2''"
      and now = "''2024-01-01''" and jwt = demo_jwt and db = db_ok and st = demo
      and h = "Some ''Bearer t1''", OF refl refl]
  note group = notification_on_user_creation [where b = group_hello and ug = "''u1''" and un = "''u2''"
      and now = "''2024-01-01''" and jwt = demo_jwt and db = db_ok and st = demo
      and h = "Some ''Bearer t1''", OF refl refl]
  have f: "db_ok 1" "db_ok 2" "cg_recipient_type hello = JString ''user''"
    "cg_recipient_type group_hello = JString ''group''"
    by (simp_all add: db_ok_def hello_def group_hello_def)
  from user [THEN conjunct1] demo_auth hello_valid f
  have "post_greetings demo_jwt db_ok ''u1'' ''u2'' ''2024-01-01'' (Some ''Bearer t1'') hello demo =
     ((201, B_greeting (new_greeting ''u1'' ''2024-01-01'' hello)),
      demo\<lparr>greetings := greetings demo @ [new_greeting ''u1'' ''2024-01-01'' hello],
            notifications := notifications demo @
              [new_notification ''u2'' ''2024-01-01'' (new_greeting ''u1'' ''2024-01-01'' hello)]\<rparr>,
      [Io_emit ''greeting_created'' (P_greeting (new_greeting ''u1'' ''2024-01-01'' hello)),
       Io_to (g_recipient_id (new_greeting ''u1'' ''2024-01-01'' hello)) ''notification''
         (P_notification (new_notification ''u2'' ''2024-01-01'' (new_greeting ''u1'' ''2024-01-01'' hello)))])"
    by simp
  then have a: "notifications (fst (snd (post_hello db_ok hello))) =
     [note1, \<lparr>n_id = ''u2'', n_user_id = ''user2'', n_greeting_id = Some ''greet9'',
              n_message = ''You received a new greeting!'', n_read_at = None,
              n_created_at = ''2024-01-01''\<rparr>]"
    by (simp add: post_hello_def demo_notifications hello_notification)
  from group [THEN conjunct2, THEN conjunct2, THEN conjunct1] demo_auth group_hello_valid f
  have "post_greetings demo_jwt db_ok ''u1'' ''u2'' ''2024-01-01'' (Some ''Bearer t1'') group_hello demo =
     ((201, B_greeting (new_greeting ''u1'' ''2024-01-01'' group_hello)),
      demo\<lparr>greetings := greetings demo @ [new_greeting ''u1'' ''2024-01-01'' group_hello]\<rparr>,
      [Io_emit ''greeting_created'' (P_greeting (new_greeting ''u1'' ''2024-01-01'' group_hello))])"
    by simp
  then have b: "notifications (fst (snd (post_hello db_ok group_hello))) = [note1]"
    by (simp add: post_hello_def demo_notifications)
  from demo_auth hello_valid group_hello_valid f a b show ?thesis by simp
qed

text \<open>
  Claim C8, as stated, fails: the greeting \<^verbatim>\<open>greet9\<close> is addressed to a user, it is stored and its
  creation is broadcast, yet the notification insert throws and no Notification record for it
  exists afterwards (the only record refers to \<^verbatim>\<open>greet1\<close>).
\<close>

theorem creation_without_notification:
  "cg_recipient_type hello = JString ''user'' \<and>
   step demo_jwt (Post_greetings (db_fails_at 2) ''u1'' ''u2'' ''2024-01-01'' (Some ''Bearer t1'') hello) demo =
     (demo\<lparr>greetings := greetings demo @ [new_greeting ''u1'' ''2024-01-01'' hello]\<rparr>,
      [(Io_emit ''greeting_created'' (P_greeting (new_greeting ''u1'' ''2024-01-01'' hello)),
        [''s11'', ''s12'', ''s13''])]) \<and>
   g_id (new_greeting ''u1'' ''2024-01-01'' hello) = ''greet9'' \<and>
   notifications (demo\<lparr>greetings := greetings demo @ [new_greeting ''u1'' ''2024-01-01'' hello]\<rparr>) = [note1] \<and>
   n_greeting_id note1 = Some ''greet1''"
  using post_hello_notification_fails [unfolded post_hello_def]
  by (simp add: emitted_def dispatch_def connected_def)
    (simp add: demo_def new_greeting_def hello_def note1_def or_else_def)








section \<open>Persistence before emission\<close>
















section \<open>Rooms across steps\<close>

lemma send_group_message_keeps:
  "sockets (fst (send_group_message c uuid now db data st)) = sockets st \<and>
   notifications (fst (send_group_message c uuid now db data st)) = notifications st"
  by (simp add: send_group_message_def Let_def)

lemma update_greeting_status_keeps:
  "sockets (fst (update_greeting_status c now db data st)) = sockets st \<and>
   notifications (fst (update_greeting_status c now db data st)) = notifications st"
  by (simp add: update_greeting_status_def Let_def split: option.splits prod.splits)

lemma admin_moderate_keeps:
  "sockets (fst (admin_moderate c u db data st)) = sockets st \<and>
   notifications (fst (admin_moderate c u db data st)) = notifications st"
  by (simp add: admin_moderate_def Let_def split: option.splits prod.splits)

lemma post_greetings_keeps:
  "sockets (fst (snd (post_greetings jwt db ug un now h b st))) = sockets st"
  by (simp add: post_greetings_def post_greetings_handler_def Let_def split: sum.splits)

lemma put_greetings_keeps:
  "sockets (fst (snd (put_greetings jwt db now h gid b st))) = sockets st \<and>
   notifications (fst (snd (put_greetings jwt db now h gid b st))) = notifications st"
  by (simp add: put_greetings_def put_greetings_handler_def Let_def split: sum.splits list.splits)

lemma post_group_members_keeps:
  "sockets (fst (snd (post_group_members jwt db uuid now h gid b st))) = sockets st \<and>
   notifications (fst (snd (post_group_members jwt db uuid now h gid b st))) = notifications st"
  by (simp add: post_group_members_def post_group_members_handler_def Let_def split: sum.splits)

lemma mark_read_keeps:
  "sockets (fst (snd (mark_read jwt db now h nid r st))) = sockets st"
  by (simp add: mark_read_def mark_read_handler_def Let_def split: sum.splits list.splits)

lemma on_socket_keeps:
  assumes "\<And>s. sockets (fst (h s)) = sockets st"
  shows "sockets (fst (on_socket c st h)) = sockets st"
  using assms by (simp add: on_socket_def emitted_def split: list.splits)


lemma step_keeps_sockets:
  "\<not> registry_action a \<Longrightarrow> sockets (fst (step jwt a st)) = sockets st"
  by (cases a)
    (simp_all add: on_socket_keeps send_group_message_keeps update_greeting_status_keeps
      admin_moderate_keeps emitted_def post_greetings_keeps put_greetings_keeps
      post_group_members_keeps mark_read_keeps)

lemma receivers_sockets: "sockets st1 = sockets st2 \<Longrightarrow> receivers st1 e = receivers st2 e"
  by (cases e) (simp_all add: connected_def resolve_def)

lemma emitted_receivers:
  "(e, rs) \<in> set (snd (emitted r)) \<Longrightarrow> rs = receivers (fst r) e"
  by (auto simp: emitted_def dispatch_def)

lemma on_socket_receivers:
  assumes "\<And>s. sockets (fst (h s)) = sockets st" and "(e, rs) \<in> set (snd (on_socket c st h))"
  shows "rs = receivers st e"
proof (cases "filter (\<lambda>s. sid s = c) (sockets st)")
  case Nil
  with assms(2) show ?thesis by (simp add: on_socket_def)
next
  case (Cons s ss)
  with assms(2) have "(e, rs) \<in> set (snd (emitted (h s)))" by (simp add: on_socket_def)
  then have "rs = receivers (fst (h s)) e" by (rule emitted_receivers)
  with receivers_sockets [OF assms(1)] show ?thesis by simp
qed

lemma step_receivers:
  assumes "(e, rs) \<in> set (snd (step jwt a st))"
  shows "rs = receivers st e"
proof (cases a)
  case (Send_group_message c uuid now db data)
  with assms show ?thesis
    using on_socket_receivers [of "\<lambda>s. send_group_message c uuid now db data st" st e rs c]
    by (simp add: send_group_message_keeps)
next
  case (Update_greeting_status c now db data)
  with assms show ?thesis
    using on_socket_receivers [of "\<lambda>s. update_greeting_status c now db data st" st e rs c]
    by (simp add: update_greeting_status_keeps)
next
  case (Admin_moderate c db data)
  with assms show ?thesis
    using on_socket_receivers [of "\<lambda>s. admin_moderate c (sock_user s) db data st" st e rs c]
    by (simp add: admin_moderate_keeps)
next
  case (Post_greetings db ug un now h b)
  with assms have "rs = receivers (fst (snd (post_greetings jwt db ug un now h b st))) e"
    by (simp add: emitted_receivers)
  with receivers_sockets [OF post_greetings_keeps] show ?thesis by simp
next
  case (Put_greetings db now h gid b)
  with assms have "rs = receivers (fst (snd (put_greetings jwt db now h gid b st))) e"
    by (simp add: emitted_receivers)
  with receivers_sockets [OF put_greetings_keeps [THEN conjunct1]] show ?thesis by simp
next
  case (Post_group_members db uuid now h gid b)
  with assms have "rs = receivers (fst (snd (post_group_members jwt db uuid now h gid b st))) e"
    by (simp add: emitted_receivers)
  with receivers_sockets [OF post_group_members_keeps [THEN conjunct1]] show ?thesis by simp
next
  case (Mark_read db now h nid r)
  with assms have "rs = receivers (fst (snd (mark_read jwt db now h nid r st))) e"
    by (simp add: emitted_receivers)
  with receivers_sockets [OF mark_read_keeps] show ?thesis by simp
qed (use assms in simp_all)

lemma map_in: "x \<in> set xs \<Longrightarrow> f x \<in> set (map f xs)"
  by simp

lemma in_resolve:
  "c \<in> set (resolve st g) \<longleftrightarrow> (\<exists>s \<in> set (sockets st). sid s = c \<and> g \<in> set (rooms s))"
  by (auto simp: resolve_def)

lemma in_connected: "c \<in> set (connected st) \<longleftrightarrow> (\<exists>s \<in> set (sockets st). sid s = c)"
  by (auto simp: connected_def)

lemma resolve_sockets: "sockets st1 = sockets st2 \<Longrightarrow> resolve st1 g = resolve st2 g"
  by (simp add: resolve_def)

lemma join_group_in_room:
  assumes "c \<in> set (connected st)"
  shows "c \<in> set (resolve (join_group c g st) g)"
proof -
  from assms obtain s where s: "s \<in> set (sockets st)" "sid s = c"
    unfolding in_connected by blast
  let ?f = "\<lambda>s. if sid s = c then s\<lparr>rooms := List.insert g (rooms s)\<rparr> else s"
  from s(1) have m: "?f s \<in> set (map ?f (sockets st))" by (rule map_in)
  from s(2) have p: "sid (?f s) = c \<and> g \<in> set (rooms (?f s))" by simp
  have eq: "sockets (join_group c g st) = map ?f (sockets st)" by (simp add: join_group_def)
  show ?thesis unfolding in_resolve eq using m p by (rule bexI [rotated])
qed

lemma connect_stays:
  assumes "c \<in> set (resolve st g)"
  shows "c \<in> set (resolve (snd (connect jwt db d token st)) g)"
proof (cases "io_use jwt db st token")
  case (Inl e)
  with assms show ?thesis by (simp add: connect_def)
next
  case (Inr u)
  then have eq: "sockets (snd (connect jwt db d token st)) =
      sockets st @ [\<lparr>sid = d, sock_user = u, rooms = List.insert (user_id u) [d]\<rparr>]"
    by (simp add: connect_def on_connection_def)
  from assms obtain s where s: "s \<in> set (sockets st)" and p: "sid s = c \<and> g \<in> set (rooms s)"
    unfolding in_resolve by blast
  from s have m: "s \<in> set (sockets st @ [\<lparr>sid = d, sock_user = u, rooms = List.insert (user_id u) [d]\<rparr>])"
    by simp
  show ?thesis unfolding in_resolve eq using m p by (rule bexI [rotated])
qed

lemma disconnect_stays:
  assumes "c \<in> set (resolve st g)" and "d \<noteq> c"
  shows "c \<in> set (resolve (disconnect d st) g)"
proof -
  from assms(1) obtain s where s: "s \<in> set (sockets st)" "sid s = c" "g \<in> set (rooms s)"
    unfolding in_resolve by blast
  with assms(2) have "s \<in> set (sockets (disconnect d st))" by (simp add: disconnect_def)
  with s show ?thesis unfolding in_resolve by blast
qed

lemma join_group_stays:
  assumes "c \<in> set (resolve st g)"
  shows "c \<in> set (resolve (join_group d g' st) g)"
proof -
  from assms obtain s where s: "s \<in> set (sockets st)" "sid s = c" "g \<in> set (rooms s)"
    unfolding in_resolve by blast
  let ?f = "\<lambda>s. if sid s = d then s\<lparr>rooms := List.insert g' (rooms s)\<rparr> else s"
  from s(1) have m: "?f s \<in> set (map ?f (sockets st))" by (rule map_in)
  from s(2,3) have p: "sid (?f s) = c \<and> g \<in> set (rooms (?f s))" by simp
  have eq: "sockets (join_group d g' st) = map ?f (sockets st)" by (simp add: join_group_def)
  show ?thesis unfolding in_resolve eq using m p by (rule bexI [rotated])
qed

lemma leave_group_stays:
  assumes "c \<in> set (resolve st g)" and "d \<noteq> c \<or> g' \<noteq> g"
  shows "c \<in> set (resolve (leave_group d g' st) g)"
proof -
  from assms(1) obtain s where s: "s \<in> set (sockets st)" "sid s = c" "g \<in> set (rooms s)"
    unfolding in_resolve by blast
  let ?f = "\<lambda>s. if sid s = d then s\<lparr>rooms := removeAll g' (rooms s)\<rparr> else s"
  from s(1) have m: "?f s \<in> set (map ?f (sockets st))" by (rule map_in)
  have p: "sid (?f s) = c \<and> g \<in> set (rooms (?f s))"
  proof (cases "sid s = d")
    case True
    with s(2) assms(2) have "g' \<noteq> g" by simp
    with True s(2,3) show ?thesis by simp
  next
    case False
    with s(2,3) show ?thesis by simp
  qed
  have eq: "sockets (leave_group d g' st) = map ?f (sockets st)" by (simp add: leave_group_def)
  show ?thesis unfolding in_resolve eq using m p by (rule bexI [rotated])
qed

lemma step_stays:
  assumes "c \<in> set (resolve st g)" and "a \<noteq> Leave_group c g" and "a \<noteq> Disconnect c"
  shows "c \<in> set (resolve (fst (step jwt a st)) g)"
proof (cases "registry_action a")
  case False
  from resolve_sockets [OF step_keeps_sockets [OF False]] assms(1) show ?thesis by simp
next
  case True
  then show ?thesis
  proof (cases a)
    case (Connect db d token)
    with connect_stays [OF assms(1)] show ?thesis by simp
  next
    case (Disconnect d)
    with assms(3) have "d \<noteq> c" by simp
    with Disconnect disconnect_stays [OF assms(1)] show ?thesis by simp
  next
    case (Join_group d g')
    with join_group_stays [OF assms(1)] show ?thesis by simp
  next
    case (Leave_group d g')
    with assms(2) have "d \<noteq> c \<or> g' \<noteq> g" by simp
    with Leave_group leave_group_stays [OF assms(1)] show ?thesis by simp
  qed simp_all
qed

lemma run_stays:
  assumes "c \<in> set (resolve st g)" and "\<forall>a \<in> set as. a \<noteq> Leave_group c g \<and> a \<noteq> Disconnect c"
  shows "c \<in> set (resolve (fst (run jwt as st)) g) \<and>
         (\<forall>(e, rs) \<in> set (snd (run jwt as st)). \<forall>n p. e = Io_to g n p \<longrightarrow> c \<in> set rs)"
  using assms
proof (induction as arbitrary: st)
  case Nil
  then show ?case by simp
next
  case (Cons a as)
  obtain st1 ds1 where s1: "step jwt a st = (st1, ds1)" by (cases "step jwt a st")
  obtain st2 ds2 where s2: "run jwt as st1 = (st2, ds2)" by (cases "run jwt as st1")
  from Cons.prems have a: "a \<noteq> Leave_group c g" "a \<noteq> Disconnect c"
    and rest: "\<forall>a \<in> set as. a \<noteq> Leave_group c g \<and> a \<noteq> Disconnect c"
    by simp_all
  from step_stays [OF Cons.prems(1) a, of jwt] s1 have in1: "c \<in> set (resolve st1 g)" by simp
  from Cons.IH [OF in1 rest] s2
  have ih: "c \<in> set (resolve st2 g)"
    "\<forall>(e, rs) \<in> set ds2. \<forall>n p. e = Io_to g n p \<longrightarrow> c \<in> set rs"
    by simp_all
  have d1: "\<forall>(e, rs) \<in> set ds1. \<forall>n p. e = Io_to g n p \<longrightarrow> c \<in> set rs"
  proof (intro ballI, clarify)
    fix rs n p
    assume "(Io_to g n p, rs) \<in> set ds1"
    with s1 have "(Io_to g n p, rs) \<in> set (snd (step jwt a st))" by simp
    then have "rs = receivers st (Io_to g n p)" by (rule step_receivers)
    with Cons.prems(1) show "c \<in> set rs" by simp
  qed
  have "run jwt (a # as) st = (st2, ds1 @ ds2)" by (simp add: s1 s2)
  with ih d1 show ?case by auto
qed

lemma lobby_sockets:
  "sockets lobby = [\<lparr>sid = ''s11'', sock_user = user1, rooms = [''s11'', ''user1'', ''group1'']\<rparr>,
                    \<lparr>sid = ''s12'', sock_user = user2, rooms = [''s12'', ''user2'', ''group1'']\<rparr>,
                    \<lparr>sid = ''s13'', sock_user = user3, rooms = [''group1'', ''s13'', ''user3'']\<rparr>]"
  by (simp add: lobby_def join_group_def demo_def)

lemma lobby_tables:
  "users lobby = [user1, user2, user3] \<and> group_ids lobby = [''group1''] \<and>
   group_members lobby = [gm1, gm2] \<and> chat_messages lobby = []"
  by (simp add: lobby_def join_group_def demo_def)

lemma say_hi_run:
  "step demo_jwt say_hi lobby =
     (lobby\<lparr>chat_messages := [msg9]\<rparr>,
      [(Io_to ''group1'' ''group_message'' (P_message msg9), [''s11'', ''s12'', ''s13''])])"
  by (simp add: say_hi_def on_socket_def lobby_sockets send_group_message_def
      createGroupChatMessageInputSchema_def chat1_def db_ok_def or_else_def Let_def emitted_def new_message_def
      dispatch_def resolve_def lobby_tables msg9_def)

lemma lobby_auth: "authenticateToken demo_jwt db_ok (lobby\<lparr>chat_messages := [msg9]\<rparr>) (Some ''Bearer t1'') = Inr user1"
  by (simp add: authenticateToken_def bearer_token_def demo_jwt_def db_ok_def select_user_def lobby_tables
      user1_def user2_def user3_def)

lemma invite_run:
  "step demo_jwt invite (lobby\<lparr>chat_messages := [msg9]\<rparr>) =
     (lobby\<lparr>chat_messages := [msg9], group_members := [gm1, gm2, gm9]\<rparr>,
      [(Io_to ''group1'' ''member_joined'' (P_member gm9), [''s11'', ''s12'', ''s13''])])"
  by (simp add: invite_def post_group_members_def lobby_auth)
    (simp add: post_group_members_handler_def createGroupMemberInputSchema_def db_ok_def lobby_tables
      select_user_def user1_def user2_def user3_def or_else_def Let_def emitted_def dispatch_def
      resolve_def lobby_sockets gm9_def)

lemma chatter_run:
  "run demo_jwt [say_hi, invite] lobby =
     (lobby\<lparr>chat_messages := [msg9], group_members := [gm1, gm2, gm9]\<rparr>,
      [(Io_to ''group1'' ''group_message'' (P_message msg9), [''s11'', ''s12'', ''s13'']),
       (Io_to ''group1'' ''member_joined'' (P_member gm9), [''s11'', ''s12'', ''s13''])])"
  by (simp add: say_hi_run invite_run)

text \<open>
  Claim C10. For a connected socket \<open>c\<close> and any group id \<open>g\<close>, \<^verbatim>\<open>join_group\<close> puts \<open>c\<close> into
  the room \<open>g\<close>: it emits nothing, cannot fail, and neither reads nor changes the recorded
  members. After that, through any sequence of requests and socket events in which \<open>c\<close>
  neither leaves \<open>g\<close> nor disconnects, \<open>c\<close> stays in the room and receives every event
  emitted to room \<open>g\<close>, the \<^verbatim>\<open>group_message\<close> and \<^verbatim>\<open>member_joined\<close> events among them.
\<close>

theorem join_group_unconditional:
  assumes "c \<in> set (connected st)"
    and "\<forall>a \<in> set as. a \<noteq> Leave_group c g \<and> a \<noteq> Disconnect c"
    and "run jwt as (join_group c g st) = (st2, ds)"
  shows "step jwt (Join_group c g) st = (join_group c g st, []) \<and>
         group_members (join_group c g st) = group_members st \<and>
         c \<in> set (resolve (join_group c g st) g) \<and>
         (\<forall>(e, rs) \<in> set ds. \<forall>n p. e = Io_to g n p \<longrightarrow> c \<in> set rs) \<and>
         c \<in> set (resolve st2 g)"
proof -
  have j: "c \<in> set (resolve (join_group c g st) g)"
    using assms(1) by (rule join_group_in_room)
  from run_stays [OF j assms(2), of jwt] assms(3)
  have "c \<in> set (resolve st2 g)"
    and "\<forall>(e, rs) \<in> set ds. \<forall>n p. e = Io_to g n p \<longrightarrow> c \<in> set rs"
    by simp_all
  moreover have "group_members (join_group c g st) = group_members st"
    by (simp add: join_group_def)
  ultimately show ?thesis using j by simp
qed

theorem join_group_unconditional_witness:
  "''s13'' \<in> set (connected demo) \<and> identity demo ''s13'' = [''user3''] \<and>
   ''user3'' \<notin> set (members_of demo ''group1'') \<and>
   say_hi \<noteq> Leave_group ''s13'' ''group1'' \<and> say_hi \<noteq> Disconnect ''s13'' \<and>
   invite \<noteq> Leave_group ''s13'' ''group1'' \<and> invite \<noteq> Disconnect ''s13'' \<and>
   snd (run demo_jwt [say_hi, invite] (join_group ''s13'' ''group1'' demo)) =
     [(Io_to ''group1'' ''group_message'' (P_message msg9), [''s11'', ''s12'', ''s13'']),
      (Io_to ''group1'' ''member_joined'' (P_member gm9), [''s11'', ''s12'', ''s13''])] \<and>
   ''s13'' \<in> set [''s11'', ''s12'', ''s13'']"
proof -
  have c: "''s13'' \<in> set (connected demo)"
    by (simp add: connected_def demo_def)
  have a: "\<forall>a \<in> set [say_hi, invite]. a \<noteq> Leave_group ''s13'' ''group1'' \<and> a \<noteq> Disconnect ''s13''"
    by (simp add: say_hi_def invite_def)
  note r = chatter_run [unfolded lobby_def]
  from join_group_unconditional [OF c a r]
  have "\<forall>(e, rs) \<in> set [(Io_to ''group1'' ''group_message'' (P_message msg9), [''s11'', ''s12'', ''s13'']),
      (Io_to ''group1'' ''member_joined'' (P_member gm9), [''s11'', ''s12'', ''s13''])].
        \<forall>n p. e = Io_to ''group1'' n p \<longrightarrow> ''s13'' \<in> set rs"
    by simp
  moreover have "identity demo ''s13'' = [''user3'']" "''user3'' \<notin> set (members_of demo ''group1'')"
    by (simp_all add: identity_def members_of_def demo_def user3_def gm1_def gm2_def)
  ultimately show ?thesis using c a r by simp
qed

section \<open>Who receives a group message\<close>

lemma on_socket_connected:
  assumes "c \<in> set (connected st)"
  shows "on_socket c st (\<lambda>s. r) = emitted r"
proof -
  from assms obtain s where "s \<in> set (sockets st)" "sid s = c"
    unfolding in_connected by blast
  then have "filter (\<lambda>s. sid s = c) (sockets st) \<noteq> []" by (rule filter_nonempty)
  then obtain y ys where "filter (\<lambda>s. sid s = c) (sockets st) = y # ys"
    using nonempty_Cons by blast
  then show ?thesis by (simp add: on_socket_def)
qed

lemma on_socket_absent:
  assumes "c \<notin> set (connected st)"
  shows "on_socket c st h = (st, [])"
proof -
  have "filter (\<lambda>s. sid s = c) (sockets st) = []"
    using assms unfolding connected_def by (auto simp: filter_empty_conv)
  then show ?thesis by (simp add: on_socket_def)
qed

lemma new_message_fields:
  "createGroupChatMessageInputSchema data \<Longrightarrow>
     gmb_group_id data = JString (m_group_id (new_message uuid now data)) \<and>
     gmb_sender_id data = JString (m_sender_id (new_message uuid now data)) \<and>
     gmb_content data = JString (m_content (new_message uuid now data))"
  by (simp add: createGroupChatMessageInputSchema_def new_message_def is_string_conv [symmetric])

text \<open>
  Claim C6, as far as the code supports it. A valid \<^verbatim>\<open>send_group_message\<close> from a connected
  socket whose insert completes stores the message \<open>m\<close> built from the payload and emits exactly
  one event, \<^verbatim>\<open>group_message\<close> carrying \<open>m\<close>, to the room named by the group id; the
  connections that observe it are exactly the connected sockets that have that room among their
  rooms (a socket's own id included). The stored membership table is not consulted. An invalid
  payload or a failing insert stores nothing and answers the sender alone with an error; an
  event from a socket that is not connected does nothing.
\<close>

theorem group_message_reaches_room:
  assumes "m = new_message uuid now data"
  shows "(c \<in> set (connected st) \<and> createGroupChatMessageInputSchema data \<and> db 0 \<longrightarrow>
            step jwt (Send_group_message c uuid now db data) st =
              (st\<lparr>chat_messages := chat_messages st @ [m]\<rparr>,
               [(Io_to (m_group_id m) ''group_message'' (P_message m), resolve st (m_group_id m))])) \<and>
         (\<forall>d G. d \<in> set (resolve st G) \<longleftrightarrow> (\<exists>s \<in> set (sockets st). sid s = d \<and> G \<in> set (rooms s))) \<and>
         (createGroupChatMessageInputSchema data \<longrightarrow>
            gmb_group_id data = JString (m_group_id m) \<and>
            gmb_sender_id data = JString (m_sender_id m) \<and>
            gmb_content data = JString (m_content m) \<and> m_created_at m = now) \<and>
         (c \<in> set (connected st) \<and> \<not> createGroupChatMessageInputSchema data \<longrightarrow>
            step jwt (Send_group_message c uuid now db data) st =
              (st, [(Socket_emit c ''error'' (P_error ''Validation error''),
                     filter (\<lambda>d. d = c) (connected st))])) \<and>
         (c \<in> set (connected st) \<and> createGroupChatMessageInputSchema data \<and> \<not> db 0 \<longrightarrow>
            step jwt (Send_group_message c uuid now db data) st =
              (st, [(Socket_emit c ''error'' (P_error ''Failed to send message''),
                     filter (\<lambda>d. d = c) (connected st))])) \<and>
         (c \<notin> set (connected st) \<longrightarrow>
            step jwt (Send_group_message c uuid now db data) st = (st, []))"
proof (intro conjI impI allI)
  assume a: "c \<in> set (connected st) \<and> createGroupChatMessageInputSchema data \<and> db 0"
  then have s: "send_group_message c uuid now db data st =
      (st\<lparr>chat_messages := chat_messages st @ [m]\<rparr>,
       [Io_to (m_group_id m) ''group_message'' (P_message m)])"
    unfolding assms by (simp add: send_group_message_def Let_def new_message_def)
  from a have "step jwt (Send_group_message c uuid now db data) st =
      emitted (send_group_message c uuid now db data st)"
    by (simp add: on_socket_connected)
  then show "step jwt (Send_group_message c uuid now db data) st =
              (st\<lparr>chat_messages := chat_messages st @ [m]\<rparr>,
               [(Io_to (m_group_id m) ''group_message'' (P_message m), resolve st (m_group_id m))])"
    unfolding s by (simp add: emitted_def dispatch_def resolve_def)
next
  fix d G
  show "d \<in> set (resolve st G) \<longleftrightarrow> (\<exists>s \<in> set (sockets st). sid s = d \<and> G \<in> set (rooms s))"
    by (rule in_resolve)
next
  assume v: "createGroupChatMessageInputSchema data"
  from new_message_fields [OF v, of uuid now]
  show "gmb_group_id data = JString (m_group_id m)"
    and "gmb_sender_id data = JString (m_sender_id m)"
    and "gmb_content data = JString (m_content m)"
    unfolding assms by simp_all
  show "m_created_at m = now" unfolding assms by (simp add: new_message_def)
next
  assume a: "c \<in> set (connected st) \<and> \<not> createGroupChatMessageInputSchema data"
  then have s: "send_group_message c uuid now db data st =
      (st, [Socket_emit c ''error'' (P_error ''Validation error'')])"
    by (simp add: send_group_message_def)
  from a have "step jwt (Send_group_message c uuid now db data) st =
      emitted (send_group_message c uuid now db data st)"
    by (simp add: on_socket_connected)
  then show "step jwt (Send_group_message c uuid now db data) st =
              (st, [(Socket_emit c ''error'' (P_error ''Validation error''),
                     filter (\<lambda>d. d = c) (connected st))])"
    unfolding s by (simp add: emitted_def dispatch_def)
next
  assume a: "c \<in> set (connected st) \<and> createGroupChatMessageInputSchema data \<and> \<not> db 0"
  then have s: "send_group_message c uuid now db data st =
      (st, [Socket_emit c ''error'' (P_error ''Failed to send message'')])"
    by (simp add: send_group_message_def)
  from a have "step jwt (Send_group_message c uuid now db data) st =
      emitted (send_group_message c uuid now db data st)"
    by (simp add: on_socket_connected)
  then show "step jwt (Send_group_message c uuid now db data) st =
              (st, [(Socket_emit c ''error'' (P_error ''Failed to send message''),
                     filter (\<lambda>d. d = c) (connected st))])"
    unfolding s by (simp add: emitted_def dispatch_def)
next
  assume "c \<notin> set (connected st)"
  then show "step jwt (Send_group_message c uuid now db data) st = (st, [])"
    by (simp add: on_socket_absent)
qed

lemma chat1_valid: "createGroupChatMessageInputSchema chat1"
  by (simp add: createGroupChatMessageInputSchema_def chat1_def)

lemma chat1_message: "new_message ''u3'' ''2024-01-01'' chat1 = msg9"
  by (simp add: new_message_def chat1_def msg9_def or_else_def)

lemma lobby_connected: "connected lobby = [''s11'', ''s12'', ''s13'']"
  by (simp add: connected_def lobby_sockets)

lemma lobby_room: "resolve lobby ''group1'' = [''s11'', ''s12'', ''s13'']"
  by (simp add: resolve_def lobby_sockets)

theorem group_message_reaches_room_witness:
  "''s11'' \<in> set (connected lobby) \<and> createGroupChatMessageInputSchema chat1 \<and> db_ok 0 \<and>
   step demo_jwt say_hi lobby =
     (lobby\<lparr>chat_messages := chat_messages lobby @ [msg9]\<rparr>,
      [(Io_to ''group1'' ''group_message'' (P_message msg9), [''s11'', ''s12'', ''s13''])]) \<and>
   identity lobby ''s13'' = [''user3''] \<and> members_of lobby ''group1'' = [''user1'', ''user2'']"
proof -
  note t = group_message_reaches_room [where uuid = "''u3''" and now = "''2024-01-01''" and data = chat1
      and c = "''s11''" and st = lobby and db = db_ok and jwt = demo_jwt, OF chat1_message [symmetric]]
  have f: "''s11'' \<in> set (connected lobby)" "db_ok 0"
    by (simp_all add: lobby_connected db_ok_def)
  from t [THEN conjunct1] f chat1_valid
  have "step demo_jwt say_hi lobby =
     (lobby\<lparr>chat_messages := chat_messages lobby @ [msg9]\<rparr>,
      [(Io_to ''group1'' ''group_message'' (P_message msg9), [''s11'', ''s12'', ''s13''])])"
    by (simp add: say_hi_def lobby_room msg9_def)
  moreover have "identity lobby ''s13'' = [''user3'']" "members_of lobby ''group1'' = [''user1'', ''user2'']"
    by (simp_all add: identity_def lobby_sockets members_of_def lobby_tables user3_def gm1_def gm2_def)
  ultimately show ?thesis using f chat1_valid by simp
qed

text \<open>
  Claim C6, as stated, fails: connection \<^verbatim>\<open>s13\<close> belongs to \<^verbatim>\<open>user3\<close>, who is not a recorded
  member of \<^verbatim>\<open>group1\<close>; having joined the room, it observes the message.
\<close>

theorem group_message_reaches_non_member:
  "snd (step demo_jwt say_hi lobby) =
     [(Io_to ''group1'' ''group_message'' (P_message msg9), [''s11'', ''s12'', ''s13''])] \<and>
   identity lobby ''s13'' = [''user3''] \<and> members_of lobby ''group1'' = [''user1'', ''user2'']"
  by (simp add: say_hi_run)
    (simp add: identity_def lobby_sockets members_of_def lobby_tables user3_def gm1_def gm2_def)

section \<open>The life of \<open>read_at\<close>\<close>














end
